theory Spec2Isabelle
  imports Main
begin

section \<open>JavaScript values\<close>

text \<open>
  The resolvers pass database rows, GraphQL objects and cached payloads around as plain
  JavaScript values. Numbers are only copied and printed, never computed with, and the
  pagination arguments are GraphQL \<open>Int\<close>s, so a number is an \<open>int\<close>. A \<open>Date\<close> is
  represented by the two texts the program can observe of it: what \<open>toISOString()\<close>
  yields and what string conversion yields.
\<close>

datatype jsval =
    JUndefined
  | JNull
  | JBool bool
  | JNum int
  | JStr string
  | JDate string string
  | JArr "jsval list"
  | JObj "(string \<times> jsval) list"

type_synonym obj = "(string \<times> jsval) list"

text \<open>What \<open>if (v)\<close> and \<open>!v\<close> test.\<close>

fun truthy :: "jsval \<Rightarrow> bool" where
  "truthy JUndefined = False"
| "truthy JNull = False"
| "truthy (JBool b) = b"
| "truthy (JNum n) = (n \<noteq> 0)"
| "truthy (JStr s) = (s \<noteq> [])"
| "truthy (JDate i s) = True"
| "truthy (JArr xs) = True"
| "truthy (JObj fs) = True"

text \<open>\<open>o.f\<close> on an object: the property's value, \<open>undefined\<close> when it has none.\<close>

definition js_field :: "obj \<Rightarrow> string \<Rightarrow> jsval" where
  "js_field ob f = (case map_of ob f of Some v \<Rightarrow> v | None \<Rightarrow> JUndefined)"

datatype error =
    Error string
  | TypeError string
  | StoreError string
  | ValidationError string
  | MaxRetriesPerRequestError

text \<open>\<open>v.f\<close> on any value: reading a property of \<open>undefined\<close> or \<open>null\<close> throws.\<close>

definition js_prop :: "jsval \<Rightarrow> string \<Rightarrow> error + jsval" where
  "js_prop v f =
     (case v of
        JObj ob \<Rightarrow> Inr (js_field ob f)
      | JUndefined \<Rightarrow> Inl (TypeError ''Cannot read properties of undefined'')
      | JNull \<Rightarrow> Inl (TypeError ''Cannot read properties of null'')
      | _ \<Rightarrow> Inr JUndefined)"

subsection \<open>String conversion in template literals\<close>

definition digit :: "nat \<Rightarrow> char" where
  "digit n = ''0123456789'' ! (n mod 10)"

fun show_nat :: "nat \<Rightarrow> string" where
  "show_nat n = (if n < 10 then [digit n] else show_nat (n div 10) @ [digit n])"

declare show_nat.simps [simp del]

definition show_int :: "int \<Rightarrow> string" where
  "show_int i = (if i < 0 then CHR ''-'' # show_nat (nat (- i)) else show_nat (nat i))"

fun join_comma :: "string list \<Rightarrow> string" where
  "join_comma [] = []"
| "join_comma [s] = s"
| "join_comma (s # t # ss) = s @ '','' @ join_comma (t # ss)"

fun js_toString :: "jsval \<Rightarrow> string" where
  "js_toString JUndefined = ''undefined''"
| "js_toString JNull = ''null''"
| "js_toString (JBool b) = (if b then ''true'' else ''false'')"
| "js_toString (JNum n) = show_int n"
| "js_toString (JStr s) = s"
| "js_toString (JDate i s) = s"
| "js_toString (JArr xs) =
     join_comma (map (\<lambda>x. case x of JUndefined \<Rightarrow> [] | JNull \<Rightarrow> [] | _ \<Rightarrow> js_toString x) xs)"
| "js_toString (JObj fs) = ''[object Object]''"

section \<open>Cache keys\<close>

text \<open>
  The template literals of \<open>ProductResolver\<close>: \<open>`products:${limit}:${offset}`\<close>,
  \<open>`product:${id}`\<close>, \<open>`category:${productRawData.category_id}`\<close>,
  \<open>`reviews:${product.id}`\<close> and \<open>`variants:${product.id}`\<close>.
\<close>

definition products_cacheKey :: "int \<Rightarrow> int \<Rightarrow> string" where
  "products_cacheKey limit offset = ''products:'' @ show_int limit @ '':'' @ show_int offset"

definition product_cacheKey :: "string \<Rightarrow> string" where
  "product_cacheKey pid = ''product:'' @ pid"

definition category_cacheKey :: "jsval \<Rightarrow> string" where
  "category_cacheKey category_id = ''category:'' @ js_toString category_id"

definition reviews_cacheKey :: "jsval \<Rightarrow> string" where
  "reviews_cacheKey product_id = ''reviews:'' @ js_toString product_id"

definition variants_cacheKey :: "jsval \<Rightarrow> string" where
  "variants_cacheKey product_id = ''variants:'' @ js_toString product_id"

text \<open>
  The specification's side of the key scheme: a template is a text with placeholders
  \<open>{name}\<close>, and its instance replaces each placeholder by the text bound to the name.
  The second argument of \<open>fill\<close> is the placeholder name being read, if any.
\<close>

fun fill :: "(string \<times> string) list \<Rightarrow> string option \<Rightarrow> string \<Rightarrow> string" where
  "fill b None [] = []"
| "fill b (Some n) [] = CHR ''{'' # n"
| "fill b None (c # cs) = (if c = CHR ''{'' then fill b (Some []) cs else c # fill b None cs)"
| "fill b (Some n) (c # cs) =
     (if c = CHR ''}''
      then (case map_of b n of Some v \<Rightarrow> v | None \<Rightarrow> CHR ''{'' # n @ ''}'') @ fill b None cs
      else fill b (Some (n @ [c])) cs)"

definition template_instance :: "string \<Rightarrow> (string \<times> string) list \<Rightarrow> string" where
  "template_instance t b = fill b None t"

section \<open>The collaborators of the resolver\<close>

subsection \<open>The cache client\<close>

text \<open>
  \<open>ProductResolver\<close> imports \<open>redisService\<close> and uses three of its methods: \<open>get\<close>, which
  resolves to a value or \<open>null\<close> or rejects, \<open>set\<close> and \<open>del\<close>. The resolver is modelled
  over any client with these three methods on a client state \<open>'c\<close>; \<open>RedisService\<close>
  below is one, the test doubles of the repository are others.
\<close>

record 'c cache_client =
  cget :: "string \<Rightarrow> 'c \<Rightarrow> (error + jsval) \<times> 'c"
  cset :: "string \<Rightarrow> jsval \<Rightarrow> nat option \<Rightarrow> 'c \<Rightarrow> (error + unit) \<times> 'c"
  cdel :: "string list \<Rightarrow> 'c \<Rightarrow> (error + unit) \<times> 'c"

subsection \<open>The record store\<close>

text \<open>
  The statements the resolver sends, named after what their SQL text does:
  the paginated list (\<open>... WHERE p.is_active = true ... LIMIT $1 OFFSET $2\<close>), the single
  product (\<open>... WHERE p.id = $1 AND p.is_active = true\<close>), \<open>SELECT * FROM categories
  WHERE id = $1\<close>, \<open>SELECT * FROM reviews WHERE product_id = $1\<close>, \<open>SELECT * FROM
  product_variants WHERE product_id = $1\<close>, the two \<open>INSERT\<close>s of \<open>createProduct\<close>, and the
  transaction commands.
\<close>

datatype sql =
    ListProducts
  | ProductById
  | CategoryById
  | ReviewsByProduct
  | VariantsByProduct
  | Begin
  | InsertProduct
  | InsertVariant
  | Commit
  | Rollback

text \<open>
  The store is PostgreSQL behind the \<open>pg\<close> pool. What a \<open>SELECT\<close> returns is the store's
  business: \<open>rows_for\<close> gives, for each statement and parameters, the rows or the error.
  \<open>pool.connect()\<close> rejects with \<open>connect_fails\<close> if set. On the connection handed out,
  the \<open>n\<close>-th statement rejects with \<open>fail_at n\<close> if set and has no effect then; otherwise
  \<open>BEGIN\<close> opens a transaction over the committed tables, an \<open>INSERT\<close> adds its row to
  the open transaction (to the committed tables when none is open), \<open>COMMIT\<close> makes the
  transaction's tables the committed ones and \<open>ROLLBACK\<close> drops it.
\<close>

record pg =
  rows_for :: "sql \<Rightarrow> jsval list \<Rightarrow> error + obj list"
  connect_fails :: "error option"
  fail_at :: "nat \<Rightarrow> error option"
  issued :: nat
  committed :: "obj list \<times> obj list"
  pending :: "(obj list \<times> obj list) option"
  next_id :: nat

definition insert_row :: "bool \<Rightarrow> obj \<Rightarrow> pg \<Rightarrow> pg" where
  "insert_row variant row s =
     (let add = (\<lambda>(ps, vs). if variant then (ps, vs @ [row]) else (ps @ [row], vs)) in
      case pending s of
        Some t \<Rightarrow> s\<lparr>pending := Some (add t), next_id := next_id s + 1\<rparr>
      | None \<Rightarrow> s\<lparr>committed := add (committed s), next_id := next_id s + 1\<rparr>)"

text \<open>
  The row an \<open>INSERT\<close> adds: the columns named in the statement, bound to its parameters
  in order, and an \<open>id\<close> the store assigns. Columns the store fills by default
  (\<open>is_active\<close>, timestamps) are left out.
\<close>

definition product_row :: "nat \<Rightarrow> jsval list \<Rightarrow> obj" where
  "product_row n ps =
     (''id'', JStr (show_nat n)) #
     zip [''name'', ''description'', ''price'', ''sku'', ''brand'', ''stock'', ''category_id''] ps"

definition variant_row :: "nat \<Rightarrow> jsval list \<Rightarrow> obj" where
  "variant_row n ps =
     (''id'', JStr (show_nat n)) #
     zip [''product_id'', ''color'', ''size'', ''price'', ''stock''] ps"

fun exec :: "sql \<Rightarrow> jsval list \<Rightarrow> pg \<Rightarrow> (error + obj list) \<times> pg" where
  "exec Begin ps s =
     (Inr [], s\<lparr>pending := Some (case pending s of Some t \<Rightarrow> t | None \<Rightarrow> committed s)\<rparr>)"
| "exec Commit ps s =
     (Inr [], (case pending s of Some t \<Rightarrow> s\<lparr>committed := t, pending := None\<rparr> | None \<Rightarrow> s))"
| "exec Rollback ps s = (Inr [], s\<lparr>pending := None\<rparr>)"
| "exec InsertProduct ps s =
     (if length ps = 7
      then (Inr [product_row (next_id s) ps], insert_row False (product_row (next_id s) ps) s)
      else (Inl (StoreError ''bind message supplies the wrong number of parameters''), s))"
| "exec InsertVariant ps s =
     (if length ps = 5
      then (Inr [], insert_row True (variant_row (next_id s) ps) s)
      else (Inl (StoreError ''bind message supplies the wrong number of parameters''), s))"
| "exec q ps s = (case rows_for s q ps of Inl e \<Rightarrow> (Inl e, s) | Inr rows \<Rightarrow> (Inr rows, s))"

definition pg_client_query :: "sql \<Rightarrow> jsval list \<Rightarrow> pg \<Rightarrow> (error + obj list) \<times> pg" where
  "pg_client_query q ps s =
     (let s1 = s\<lparr>issued := issued s + 1\<rparr> in
      case fail_at s (issued s) of
        Some e \<Rightarrow> (Inl e, s1)
      | None \<Rightarrow> exec q ps s1)"

subsection \<open>The resolver instance and what it does to the outside\<close>

datatype event =
    CacheGet string
  | CacheSet string jsval "nat option"
  | CacheDel "string list"
  | Query sql "jsval list"
  | Connect
  | Release

text \<open>
  A \<open>ProductResolver\<close> holds three side tables (\<open>Map\<close>s keyed by an id). The world of a
  call is the resolver's tables, the cache client's state and the store; \<open>calls\<close> records,
  in order, every call made to the cache client and to the store.
\<close>

record 'c world =
  cache :: 'c
  db :: pg
  productData :: "jsval \<rightharpoonup> obj"
  reviewData :: "jsval \<rightharpoonup> obj list"
  variantData :: "jsval \<rightharpoonup> obj list"
  calls :: "event list"

definition redis_get :: "'c cache_client \<Rightarrow> string \<Rightarrow> 'c world \<Rightarrow> (error + jsval) \<times> 'c world" where
  "redis_get cc key w =
     (case cget cc key (cache w) of
        (r, c) \<Rightarrow> (r, w\<lparr>cache := c, calls := calls w @ [CacheGet key]\<rparr>))"

definition redis_set ::
  "'c cache_client \<Rightarrow> string \<Rightarrow> jsval \<Rightarrow> nat option \<Rightarrow> 'c world \<Rightarrow> (error + unit) \<times> 'c world" where
  "redis_set cc key v ttl w =
     (case cset cc key v ttl (cache w) of
        (r, c) \<Rightarrow> (r, w\<lparr>cache := c, calls := calls w @ [CacheSet key v ttl]\<rparr>))"

definition redis_del :: "'c cache_client \<Rightarrow> string list \<Rightarrow> 'c world \<Rightarrow> (error + unit) \<times> 'c world" where
  "redis_del cc keys w =
     (case cdel cc keys (cache w) of
        (r, c) \<Rightarrow> (r, w\<lparr>cache := c, calls := calls w @ [CacheDel keys]\<rparr>))"

definition pool_query :: "sql \<Rightarrow> jsval list \<Rightarrow> 'c world \<Rightarrow> (error + obj list) \<times> 'c world" where
  "pool_query q ps w = (rows_for (db w) q ps, w\<lparr>calls := calls w @ [Query q ps]\<rparr>)"

definition pool_connect :: "'c world \<Rightarrow> (error + unit) \<times> 'c world" where
  "pool_connect w =
     (case connect_fails (db w) of
        Some e \<Rightarrow> (Inl e, w\<lparr>calls := calls w @ [Connect]\<rparr>)
      | None \<Rightarrow> (Inr (), w\<lparr>calls := calls w @ [Connect]\<rparr>))"

definition client_query :: "sql \<Rightarrow> jsval list \<Rightarrow> 'c world \<Rightarrow> (error + obj list) \<times> 'c world" where
  "client_query q ps w =
     (case pg_client_query q ps (db w) of
        (r, s) \<Rightarrow> (r, w\<lparr>db := s, calls := calls w @ [Query q ps]\<rparr>))"

definition client_release :: "'c world \<Rightarrow> 'c world" where
  "client_release w = w\<lparr>calls := calls w @ [Release]\<rparr>"

section \<open>ProductResolver\<close>

subsection \<open>Mapping rows to GraphQL objects\<close>

definition mapProductDBToProduct :: "obj \<Rightarrow> obj" where
  "mapProductDBToProduct productDB =
     [(''id'', js_field productDB ''id''),
      (''name'', js_field productDB ''name''),
      (''description'', js_field productDB ''description''),
      (''price'', js_field productDB ''price''),
      (''sku'', js_field productDB ''sku''),
      (''brand'', js_field productDB ''brand''),
      (''stock'', js_field productDB ''stock'')]"

definition mapCategoryDBToCategory :: "obj \<Rightarrow> obj" where
  "mapCategoryDBToCategory categoryDB =
     [(''id'', js_field categoryDB ''id''),
      (''name'', js_field categoryDB ''name''),
      (''description'', js_field categoryDB ''description'')]"

text \<open>\<open>reviewDB.created_at.toISOString()\<close> throws unless \<open>created_at\<close> is a \<open>Date\<close>.\<close>

definition mapReviewDBToReview :: "obj \<Rightarrow> error + obj" where
  "mapReviewDBToReview reviewDB =
     (case js_field reviewDB ''created_at'' of
        JDate isoText s \<Rightarrow>
          Inr [(''id'', js_field reviewDB ''id''),
               (''userId'', js_field reviewDB ''user_id''),
               (''rating'', js_field reviewDB ''rating''),
               (''comment'', js_field reviewDB ''comment''),
               (''createdAt'', JStr isoText)]
      | JUndefined \<Rightarrow> Inl (TypeError ''Cannot read properties of undefined'')
      | JNull \<Rightarrow> Inl (TypeError ''Cannot read properties of null'')
      | _ \<Rightarrow> Inl (TypeError ''reviewDB.created_at.toISOString is not a function''))"

definition mapVariantDBToVariant :: "obj \<Rightarrow> obj" where
  "mapVariantDBToVariant variantDB =
     [(''id'', js_field variantDB ''id''),
      (''color'', js_field variantDB ''color''),
      (''size'', js_field variantDB ''size''),
      (''price'', js_field variantDB ''price''),
      (''stock'', js_field variantDB ''stock'')]"

text \<open>\<open>rows.map(f)\<close> for an \<open>f\<close> that can throw: the first throw ends the map.\<close>

fun map_rows :: "(obj \<Rightarrow> error + obj) \<Rightarrow> obj list \<Rightarrow> error + obj list" where
  "map_rows f [] = Inr []"
| "map_rows f (r # rs) =
     (case f r of
        Inl e \<Rightarrow> Inl e
      | Inr x \<Rightarrow> (case map_rows f rs of Inl e \<Rightarrow> Inl e | Inr xs \<Rightarrow> Inr (x # xs)))"

subsection \<open>Queries\<close>

text \<open>
  Each method body is a \<open>try\<close> whose \<open>catch\<close> logs and rethrows the error it caught, so an
  error of any step is the method's outcome. The logger is not modelled.
\<close>

definition products :: "'c cache_client \<Rightarrow> int \<Rightarrow> int \<Rightarrow> 'c world \<Rightarrow> (error + jsval) \<times> 'c world" where
  "products cc limit offset w =
     (let cacheKey = products_cacheKey limit offset in
      case redis_get cc cacheKey w of
        (Inl e, w1) \<Rightarrow> (Inl e, w1)
      | (Inr cachedProducts, w1) \<Rightarrow>
          if truthy cachedProducts then (Inr cachedProducts, w1)
          else
            (case pool_query ListProducts [JNum limit, JNum offset] w1 of
               (Inl e, w2) \<Rightarrow> (Inl e, w2)
             | (Inr rows, w2) \<Rightarrow>
                 (case redis_set cc cacheKey (JArr (map JObj rows)) (Some 300) w2 of
                    (Inl e, w3) \<Rightarrow> (Inl e, w3)
                  | (Inr u, w3) \<Rightarrow>
                      (Inr (JArr (map (\<lambda>row. JObj (mapProductDBToProduct row)) rows)),
                       w3\<lparr>productData :=
                            foldl (\<lambda>m row. m(js_field row ''id'' \<mapsto> row)) (productData w3) rows\<rparr>))))"

definition product_query :: "'c cache_client \<Rightarrow> string \<Rightarrow> 'c world \<Rightarrow> (error + jsval) \<times> 'c world" where
  "product_query cc pid w =
     (let cacheKey = product_cacheKey pid in
      case redis_get cc cacheKey w of
        (Inl e, w1) \<Rightarrow> (Inl e, w1)
      | (Inr cachedProduct, w1) \<Rightarrow>
          if truthy cachedProduct then (Inr cachedProduct, w1)
          else
            (case pool_query ProductById [JStr pid] w1 of
               (Inl e, w2) \<Rightarrow> (Inl e, w2)
             | (Inr rows, w2) \<Rightarrow>
                 (case rows of
                    [] \<Rightarrow> (Inr JNull, w2)
                  | product # rest \<Rightarrow>
                      (case redis_set cc cacheKey (JObj product) (Some 3600) w2 of
                         (Inl e, w3) \<Rightarrow> (Inl e, w3)
                       | (Inr u, w3) \<Rightarrow> (Inr (JObj product), w3)))))"

subsection \<open>Field resolvers\<close>

definition category :: "'c cache_client \<Rightarrow> obj \<Rightarrow> 'c world \<Rightarrow> (error + jsval) \<times> 'c world" where
  "category cc product w =
     (case productData w (js_field product ''id'') of
        None \<Rightarrow> (Inl (Error ''Product data not found''), w)
      | Some productRawData \<Rightarrow>
          (let cacheKey = category_cacheKey (js_field productRawData ''category_id'') in
           case redis_get cc cacheKey w of
             (Inl e, w1) \<Rightarrow> (Inl e, w1)
           | (Inr cachedCategory, w1) \<Rightarrow>
               if truthy cachedCategory then (Inr cachedCategory, w1)
               else
                 (case pool_query CategoryById [js_field productRawData ''category_id''] w1 of
                    (Inl e, w2) \<Rightarrow> (Inl e, w2)
                  | (Inr rows, w2) \<Rightarrow>
                      (case rows of
                         [] \<Rightarrow> (Inl (TypeError ''Cannot read properties of undefined''), w2)
                       | categoryDB # rest \<Rightarrow>
                           (let c = JObj (mapCategoryDBToCategory categoryDB) in
                            case redis_set cc cacheKey c (Some 3600) w2 of
                              (Inl e, w3) \<Rightarrow> (Inl e, w3)
                            | (Inr u, w3) \<Rightarrow> (Inr c, w3))))))"

definition reviews :: "'c cache_client \<Rightarrow> obj \<Rightarrow> 'c world \<Rightarrow> (error + jsval) \<times> 'c world" where
  "reviews cc product w =
     (let cacheKey = reviews_cacheKey (js_field product ''id'') in
      case redis_get cc cacheKey w of
        (Inl e, w1) \<Rightarrow> (Inl e, w1)
      | (Inr cachedReviews, w1) \<Rightarrow>
          if truthy cachedReviews then (Inr cachedReviews, w1)
          else
            (case pool_query ReviewsByProduct [js_field product ''id''] w1 of
               (Inl e, w2) \<Rightarrow> (Inl e, w2)
             | (Inr rows, w2) \<Rightarrow>
                 (let w3 = w2\<lparr>reviewData := (reviewData w2)(js_field product ''id'' \<mapsto> rows)\<rparr> in
                  case map_rows mapReviewDBToReview rows of
                    Inl e \<Rightarrow> (Inl e, w3)
                  | Inr rs \<Rightarrow>
                      (case redis_set cc cacheKey (JArr (map JObj rs)) (Some 1800) w3 of
                         (Inl e, w4) \<Rightarrow> (Inl e, w4)
                       | (Inr u, w4) \<Rightarrow> (Inr (JArr (map JObj rs)), w4)))))"

definition variants :: "'c cache_client \<Rightarrow> obj \<Rightarrow> 'c world \<Rightarrow> (error + jsval) \<times> 'c world" where
  "variants cc product w =
     (let cacheKey = variants_cacheKey (js_field product ''id'') in
      case redis_get cc cacheKey w of
        (Inl e, w1) \<Rightarrow> (Inl e, w1)
      | (Inr cachedVariants, w1) \<Rightarrow>
          if truthy cachedVariants then (Inr cachedVariants, w1)
          else
            (case pool_query VariantsByProduct [js_field product ''id''] w1 of
               (Inl e, w2) \<Rightarrow> (Inl e, w2)
             | (Inr rows, w2) \<Rightarrow>
                 (let w3 = w2\<lparr>variantData := (variantData w2)(js_field product ''id'' \<mapsto> rows)\<rparr>;
                      vs = JArr (map (\<lambda>row. JObj (mapVariantDBToVariant row)) rows)
                  in case redis_set cc cacheKey vs (Some 1800) w3 of
                       (Inl e, w4) \<Rightarrow> (Inl e, w4)
                     | (Inr u, w4) \<Rightarrow> (Inr vs, w4))))"

subsection \<open>The mutation\<close>

text \<open>The elements of an array literal are evaluated from left to right.\<close>

fun js_props :: "jsval \<Rightarrow> string list \<Rightarrow> error + jsval list" where
  "js_props v [] = Inr []"
| "js_props v (f # fs) =
     (case js_prop v f of
        Inl e \<Rightarrow> Inl e
      | Inr x \<Rightarrow> (case js_props v fs of Inl e \<Rightarrow> Inl e | Inr xs \<Rightarrow> Inr (x # xs)))"

text \<open>The loop \<open>for (const variant of input.variants)\<close>, one \<open>INSERT\<close> each.\<close>

fun insert_variants :: "jsval \<Rightarrow> jsval list \<Rightarrow> 'c world \<Rightarrow> (error + unit) \<times> 'c world" where
  "insert_variants product [] w = (Inr (), w)"
| "insert_variants product (variant # rest) w =
     (case js_prop product ''id'' of
        Inl e \<Rightarrow> (Inl e, w)
      | Inr pid \<Rightarrow>
          (case js_props variant [''color'', ''size'', ''price'', ''stock''] of
             Inl e \<Rightarrow> (Inl e, w)
           | Inr ps \<Rightarrow>
               (case client_query InsertVariant (pid # ps) w of
                  (Inl e, w1) \<Rightarrow> (Inl e, w1)
                | (Inr rows, w1) \<Rightarrow> insert_variants product rest w1)))"

text \<open>The inner \<open>try\<close> block, from \<open>BEGIN\<close> to \<open>return product\<close>.\<close>

definition createProduct_try :: "'c cache_client \<Rightarrow> obj \<Rightarrow> 'c world \<Rightarrow> (error + jsval) \<times> 'c world" where
  "createProduct_try cc input w =
     (case client_query Begin [] w of
        (Inl e, w1) \<Rightarrow> (Inl e, w1)
      | (Inr b, w1) \<Rightarrow>
          (case client_query InsertProduct
                  (map (js_field input)
                     [''name'', ''description'', ''price'', ''sku'', ''brand'', ''stock'',
                      ''categoryId'']) w1 of
             (Inl e, w2) \<Rightarrow> (Inl e, w2)
           | (Inr rows, w2) \<Rightarrow>
               (let product = (case rows of [] \<Rightarrow> JUndefined | r # rest \<Rightarrow> JObj r) in
                case (case js_field input ''variants'' of
                        JArr vs \<Rightarrow>
                          if vs \<noteq> [] then insert_variants product vs w2 else (Inr (), w2)
                      | _ \<Rightarrow> (Inr (), w2)) of
                  (Inl e, w3) \<Rightarrow> (Inl e, w3)
                | (Inr u, w3) \<Rightarrow>
                    (case client_query Commit [] w3 of
                       (Inl e, w4) \<Rightarrow> (Inl e, w4)
                     | (Inr c, w4) \<Rightarrow>
                         (case redis_del cc [''products:*''] w4 of
                            (Inl e, w5) \<Rightarrow> (Inl e, w5)
                          | (Inr d, w5) \<Rightarrow> (Inr product, w5))))))"

text \<open>
  \<open>createProduct\<close>: validation (the \<open>yup\<close> schema's verdict is the parameter \<open>validate\<close>),
  \<open>pool.connect()\<close>, the \<open>try\<close> block, its \<open>catch\<close> (\<open>ROLLBACK\<close>, then rethrow; an error
  thrown by \<open>ROLLBACK\<close> itself replaces the one caught) and \<open>finally\<close> (release).
\<close>

definition createProduct ::
  "'c cache_client \<Rightarrow> (obj \<Rightarrow> error option) \<Rightarrow> obj \<Rightarrow> 'c world \<Rightarrow> (error + jsval) \<times> 'c world" where
  "createProduct cc validate input w =
     (case validate input of
        Some e \<Rightarrow> (Inl e, w)
      | None \<Rightarrow>
          (case pool_connect w of
             (Inl e, w1) \<Rightarrow> (Inl e, w1)
           | (Inr u, w1) \<Rightarrow>
               (case createProduct_try cc input w1 of
                  (Inr product, w2) \<Rightarrow> (Inr product, client_release w2)
                | (Inl e, w2) \<Rightarrow>
                    (case client_query Rollback [] w2 of
                       (Inl e', w3) \<Rightarrow> (Inl e', client_release w3)
                     | (Inr r, w3) \<Rightarrow> (Inl e, client_release w3)))))"

section \<open>RedisService\<close>

subsection \<open>The ioredis client and the server behind it\<close>

text \<open>
  The server holds texts under keys, each with an optional time of expiry on the server's
  clock. \<open>GET\<close> resolves to the text or \<open>null\<close>, \<open>SET\<close> to \<open>'OK'\<close>, \<open>DEL\<close> to the
  number of keys removed (it removes the keys named, literally), \<open>PING\<close> to \<open>'PONG'\<close>.
  When the server cannot be reached the client keeps reconnecting (its \<open>retryStrategy\<close>
  never gives up) and, with \<open>maxRetriesPerRequest: 3\<close>, rejects a waiting command with
  ioredis's \<open>MaxRetriesPerRequestError\<close>.

  The breaker keeps its state and, for its error rate, the numbers of calls fired and of
  calls failed. That it forgets the calls that have left its rolling window, and half-opens
  itself when \<open>resetTimeout\<close> has passed, is the passage of time between calls and is
  not modelled: a call finds the breaker in the state the record gives.
\<close>

datatype circuit = Closed | HalfOpen | Open

record redis =
  entries :: "string \<rightharpoonup> string \<times> nat option"
  clock :: nat
  reachable :: bool
  isConnected :: bool
  breaker :: circuit
  fires :: nat
  failures :: nat

definition live :: "redis \<Rightarrow> string \<Rightarrow> string option" where
  "live s k =
     (case entries s k of
        None \<Rightarrow> None
      | Some (v, None) \<Rightarrow> Some v
      | Some (v, Some t) \<Rightarrow> if clock s < t then Some v else None)"

definition unreachable :: "redis \<Rightarrow> (error + jsval) \<times> redis" where
  "unreachable s = (Inl MaxRetriesPerRequestError, s)"

definition client_ping :: "redis \<Rightarrow> (error + jsval) \<times> redis" where
  "client_ping s = (if reachable s then (Inr (JStr ''PONG''), s) else unreachable s)"

definition client_get :: "string \<Rightarrow> redis \<Rightarrow> (error + jsval) \<times> redis" where
  "client_get k s =
     (if reachable s
      then (Inr (case live s k of Some v \<Rightarrow> JStr v | None \<Rightarrow> JNull), s)
      else unreachable s)"

definition client_set :: "string \<Rightarrow> string \<Rightarrow> nat option \<Rightarrow> redis \<Rightarrow> (error + jsval) \<times> redis" where
  "client_set k v ex s =
     (if reachable s
      then (Inr (JStr ''OK''),
            s\<lparr>entries := (entries s)(k \<mapsto> (v, map_option (\<lambda>n. clock s + n) ex))\<rparr>)
      else unreachable s)"

definition client_del :: "string list \<Rightarrow> redis \<Rightarrow> (error + jsval) \<times> redis" where
  "client_del ks s =
     (if reachable s
      then (Inr (JNum (int (length (filter (\<lambda>k. live s k \<noteq> None) (remdups ks))))),
            s\<lparr>entries := entries s |` (- set ks)\<rparr>)
      else unreachable s)"

subsection \<open>The circuit breaker\<close>

text \<open>
  \<open>setupCircuitBreaker\<close> builds the breaker around the action
  \<open>async (command, ...args) => await this.client[command](...args)\<close>: the action takes
  the name of a client method and that method's arguments. The breaker's
  \<open>fire(...args)\<close> counts the call and calls the action with the arguments \<open>fire\<close> was
  given, unless the circuit is open, when it rejects at once. The methods of
  \<open>RedisService\<close> call \<open>fire\<close> with one argument, an async function; the action then looks
  up \<open>this.client[command]\<close> with that function as the property key, finds no such
  method, and the call of \<open>undefined\<close> throws a \<open>TypeError\<close>.

  A failed call is counted, and it opens the circuit if the circuit was half-open or if
  the failed calls are now more than \<open>errorThresholdPercentage: 50\<close> per cent of the calls
  fired (no \<open>volumeThreshold\<close> is set, so one failed call out of one suffices). A
  successful call closes a half-open circuit.
\<close>

datatype fire_arg =
    MethodName string
  | AsyncFn "redis \<Rightarrow> (error + jsval) \<times> redis"

definition client_method :: "string \<Rightarrow> jsval list \<Rightarrow> (redis \<Rightarrow> (error + jsval) \<times> redis) option" where
  "client_method name args =
     (if name = ''ping'' then Some client_ping
      else if name = ''get'' then Some (client_get (js_toString (hd (args @ [JUndefined]))))
      else if name = ''del'' then Some (client_del (map js_toString args))
      else if name = ''set'' then
        (case args of
           [k, v] \<Rightarrow> Some (client_set (js_toString k) (js_toString v) None)
         | [k, v, JStr ''EX'', JNum n] \<Rightarrow>
             Some (client_set (js_toString k) (js_toString v) (Some (nat n)))
         | _ \<Rightarrow> Some (\<lambda>s. (Inl (Error ''ERR syntax error''), s)))
      else None)"

definition breaker_action :: "fire_arg \<Rightarrow> jsval list \<Rightarrow> redis \<Rightarrow> (error + jsval) \<times> redis" where
  "breaker_action command args s =
     (case command of
        MethodName name \<Rightarrow>
          (case client_method name args of
             Some m \<Rightarrow> m s
           | None \<Rightarrow> (Inl (TypeError ''this.client[command] is not a function''), s))
      | AsyncFn f \<Rightarrow> (Inl (TypeError ''this.client[command] is not a function''), s))"

definition record_failure :: "circuit \<Rightarrow> redis \<Rightarrow> redis" where
  "record_failure before s =
     (let s1 = s\<lparr>failures := failures s + 1\<rparr> in
      if before = HalfOpen \<or> 50 * fires s1 < 100 * failures s1 then s1\<lparr>breaker := Open\<rparr>
      else s1)"

definition fire :: "fire_arg \<Rightarrow> jsval list \<Rightarrow> redis \<Rightarrow> (error + jsval) \<times> redis" where
  "fire command args s =
     (let s0 = s\<lparr>fires := fires s + 1\<rparr> in
      if breaker s = Open then (Inl (Error ''Breaker is open''), s0)
      else
        (case breaker_action command args s0 of
           (Inl e, s1) \<Rightarrow> (Inl e, record_failure (breaker s) s1)
         | (Inr v, s1) \<Rightarrow>
             (Inr v, if breaker s = HalfOpen then s1\<lparr>breaker := Closed\<rparr> else s1)))"

subsection \<open>The service\<close>

text \<open>
  \<open>JSON.stringify\<close> and \<open>JSON.parse\<close> are parameters of the service. Each method's
  \<open>catch\<close> logs and rethrows.
\<close>

record json_codec =
  stringify :: "jsval \<Rightarrow> string"
  parse :: "string \<Rightarrow> error + jsval"

definition ensureConnection :: "redis \<Rightarrow> (error + unit) \<times> redis" where
  "ensureConnection s =
     (if \<not> isConnected s
      then (case client_ping s of
              (Inl e, s1) \<Rightarrow> (Inl e, s1)
            | (Inr p, s1) \<Rightarrow> (Inr (), s1\<lparr>isConnected := True\<rparr>))
      else (Inr (), s))"

text \<open>The async functions the three methods hand to \<open>fire\<close>.\<close>

definition set_fn :: "string \<Rightarrow> string \<Rightarrow> nat option \<Rightarrow> redis \<Rightarrow> (error + jsval) \<times> redis" where
  "set_fn key stringifiedValue expirationInSeconds s =
     (case (case expirationInSeconds of
              Some n \<Rightarrow>
                if n \<noteq> 0 then client_set key stringifiedValue (Some n) s
                else client_set key stringifiedValue None s
            | None \<Rightarrow> client_set key stringifiedValue None s) of
        (Inl e, s1) \<Rightarrow> (Inl e, s1)
      | (Inr ok, s1) \<Rightarrow> (Inr JUndefined, s1))"

definition RedisService_set ::
  "json_codec \<Rightarrow> string \<Rightarrow> jsval \<Rightarrow> nat option \<Rightarrow> redis \<Rightarrow> (error + unit) \<times> redis" where
  "RedisService_set j key v expirationInSeconds s =
     (case ensureConnection s of
        (Inl e, s1) \<Rightarrow> (Inl e, s1)
      | (Inr u, s1) \<Rightarrow>
          (case fire (AsyncFn (set_fn key (stringify j v) expirationInSeconds)) [] s1 of
             (Inl e, s2) \<Rightarrow> (Inl e, s2)
           | (Inr r, s2) \<Rightarrow> (Inr (), s2)))"

definition RedisService_get :: "json_codec \<Rightarrow> string \<Rightarrow> redis \<Rightarrow> (error + jsval) \<times> redis" where
  "RedisService_get j key s =
     (case ensureConnection s of
        (Inl e, s1) \<Rightarrow> (Inl e, s1)
      | (Inr u, s1) \<Rightarrow>
          (case fire (AsyncFn (client_get key)) [] s1 of
             (Inl e, s2) \<Rightarrow> (Inl e, s2)
           | (Inr v, s2) \<Rightarrow>
               if \<not> truthy v then (Inr JNull, s2)
               else (case parse j (js_toString v) of
                       Inl e \<Rightarrow> (Inl e, s2)
                     | Inr x \<Rightarrow> (Inr x, s2))))"

definition RedisService_del :: "string list \<Rightarrow> redis \<Rightarrow> (error + unit) \<times> redis" where
  "RedisService_del keys s =
     (case ensureConnection s of
        (Inl e, s1) \<Rightarrow> (Inl e, s1)
      | (Inr u, s1) \<Rightarrow>
          (case fire (AsyncFn (client_del keys)) [] s1 of
             (Inl e, s2) \<Rightarrow> (Inl e, s2)
           | (Inr r, s2) \<Rightarrow> (Inr (), s2)))"

definition redisService :: "json_codec \<Rightarrow> redis cache_client" where
  "redisService j =
     \<lparr>cget = RedisService_get j, cset = RedisService_set j, cdel = RedisService_del\<rparr>"

section \<open>Observing a call\<close>

text \<open>The calls a method added to the record, and the cache keys and statements in them.\<close>

definition new_calls :: "'c world \<Rightarrow> 'c world \<Rightarrow> event list" where
  "new_calls w w' = drop (length (calls w)) (calls w')"

fun cache_keys :: "event list \<Rightarrow> string list" where
  "cache_keys [] = []"
| "cache_keys (CacheGet k # es) = k # cache_keys es"
| "cache_keys (CacheSet k v t # es) = k # cache_keys es"
| "cache_keys (CacheDel ks # es) = ks @ cache_keys es"
| "cache_keys (e # es) = cache_keys es"

fun is_cache_call :: "event \<Rightarrow> bool" where
  "is_cache_call (CacheGet k) = True"
| "is_cache_call (CacheSet k v t) = True"
| "is_cache_call (CacheDel ks) = True"
| "is_cache_call e = False"

definition cache_calls :: "event list \<Rightarrow> event list" where
  "cache_calls es = filter is_cache_call es"

fun statements :: "event list \<Rightarrow> sql list" where
  "statements [] = []"
| "statements (Query q ps # es) = q # statements es"
| "statements (e # es) = statements es"




definition try_end :: "'c cache_client \<Rightarrow> obj \<Rightarrow> 'c world \<Rightarrow> 'c world" where
  "try_end cc input w = snd (createProduct_try cc input (snd (pool_connect w)))"

definition store_query_threw :: "'c cache_client \<Rightarrow> obj \<Rightarrow> 'c world \<Rightarrow> error \<Rightarrow> bool" where
  "store_query_threw cc input w e =
     list_ex (\<lambda>n. fail_at (db w) n = Some e)
       [issued (db w) ..< issued (db (try_end cc input w))]"

section \<open>Test doubles and scenarios\<close>

text \<open>
  A cache client held in memory, in the manner of the mocks of
  \<open>test/resolvers/ProductResolver.test.ts\<close> but keeping what it is given: \<open>get\<close> resolves
  to the value under the key or \<open>null\<close>, \<open>del\<close> removes the keys named.
\<close>

definition mem_client :: "(string \<rightharpoonup> jsval) cache_client" where
  "mem_client =
     \<lparr>cget = (\<lambda>k m. (Inr (case m k of Some v \<Rightarrow> v | None \<Rightarrow> JNull), m)),
      cset = (\<lambda>k v ttl m. (Inr (), m(k \<mapsto> v))),
      cdel = (\<lambda>ks m. (Inr (), m |` (- set ks)))\<rparr>"

text \<open>A store with no faults and empty tables that answers \<open>SELECT\<close>s by \<open>f\<close>.\<close>

definition store :: "(sql \<Rightarrow> jsval list \<Rightarrow> error + obj list) \<Rightarrow> pg" where
  "store f =
     \<lparr>rows_for = f, connect_fails = None, fail_at = (\<lambda>n. None), issued = 0,
      committed = ([], []), pending = None, next_id = 2\<rparr>"

text \<open>\<open>new ProductResolver()\<close>: the side tables start empty.\<close>

definition new_resolver :: "'c \<Rightarrow> pg \<Rightarrow> 'c world" where
  "new_resolver c s =
     \<lparr>cache = c, db = s, productData = Map.empty, reviewData = Map.empty,
      variantData = Map.empty, calls = []\<rparr>"

text \<open>The row of the test \<open>sollte eine Liste von Produkten zurueckgeben\<close>, without its dates.\<close>

definition mockProduct :: obj where
  "mockProduct =
     [(''id'', JStr ''1''), (''name'', JStr ''Produkt 1''),
      (''description'', JStr ''Beschreibung 1''), (''price'', JNum 100),
      (''sku'', JStr ''SKU1''), (''brand'', JStr ''Marke1''), (''stock'', JNum 10),
      (''category_id'', JStr ''cat1''), (''is_active'', JBool True)]"

definition mockCategory :: obj where
  "mockCategory = [(''id'', JStr ''cat1''), (''name'', JStr ''Kategorie 1''),
                   (''description'', JNull), (''parent_category_id'', JNull)]"

definition catalog :: "sql \<Rightarrow> jsval list \<Rightarrow> error + obj list" where
  "catalog q ps =
     (if q = ListProducts then Inr [mockProduct]
      else if q = ProductById \<and> ps = [JStr ''1''] then Inr [mockProduct]
      else if q = CategoryById \<and> ps = [JStr ''cat1''] then Inr [mockCategory]
      else Inr [])"

text \<open>The input of the test \<open>sollte ein neues Produkt erstellen\<close>, with a whole price, and one with two variants.\<close>

definition mockInput :: obj where
  "mockInput =
     [(''name'', JStr ''Neues Produkt''), (''description'', JStr ''Detaillierte Beschreibung''),
      (''price'', JNum 99), (''stock'', JNum 50),
      (''categoryId'', JStr ''fd5f0dfe-a9ed-4234-b0a0-afc3c187c10b''), (''variants'', JArr [])]"

definition mockVariants :: "jsval list" where
  "mockVariants =
     [JObj [(''color'', JStr ''rot''), (''size'', JStr ''M''), (''price'', JNum 99), (''stock'', JNum 5)],
      JObj [(''color'', JStr ''blau''), (''size'', JStr ''L''), (''price'', JNum 99), (''stock'', JNum 7)]]"

definition mockInputWithVariants :: obj where
  "mockInputWithVariants =
     [(''name'', JStr ''Neues Produkt''), (''description'', JStr ''Detaillierte Beschreibung''),
      (''price'', JNum 99), (''stock'', JNum 50),
      (''categoryId'', JStr ''fd5f0dfe-a9ed-4234-b0a0-afc3c187c10b''),
      (''variants'', JArr mockVariants)]"

definition redis_up :: redis where
  "redis_up =
     \<lparr>entries = Map.empty, clock = 0, reachable = True, isConnected = True, breaker = Closed,
      fires = 0, failures = 0\<rparr>"

definition redis_down :: redis where
  "redis_down =
     \<lparr>entries = Map.empty, clock = 0, reachable = False, isConnected = False, breaker = Closed,
      fires = 0, failures = 0\<rparr>"

text \<open>
  A resolver whose cache already holds an entry under each of the five keys of product
  \<open>1\<close> (two of them empty lists) and whose side table holds the product's row; and a
  resolver whose cache server cannot be reached.
\<close>

definition warm_world :: "(string \<rightharpoonup> jsval) world" where
  "warm_world =
     (new_resolver
        [''products:10:0'' \<mapsto> JArr [JObj (mapProductDBToProduct mockProduct)],
         ''product:1'' \<mapsto> JObj mockProduct,
         ''category:cat1'' \<mapsto> JObj (mapCategoryDBToCategory mockCategory),
         ''reviews:1'' \<mapsto> JArr [],
         ''variants:1'' \<mapsto> JArr []]
        (store catalog))
     \<lparr>productData := [JStr ''1'' \<mapsto> mockProduct]\<rparr>"

definition down_world :: "redis world" where
  "down_world =
     (new_resolver redis_down (store catalog))\<lparr>productData := [JStr ''1'' \<mapsto> mockProduct]\<rparr>"

text \<open>A resolver with an empty cache whose side table holds the row of product \<open>1\<close>.\<close>

definition cold_world :: "(string \<rightharpoonup> jsval) world" where
  "cold_world =
     (new_resolver Map.empty (store catalog))\<lparr>productData := [JStr ''1'' \<mapsto> mockProduct]\<rparr>"

text \<open>
  A cache that holds falsy values under two product keys, and one that holds a list under
  \<open>products:10:0\<close>; both with fresh resolvers.
\<close>

definition falsy_world :: "(string \<rightharpoonup> jsval) world" where
  "falsy_world =
     new_resolver [''product:1'' \<mapsto> JBool False, ''product:2'' \<mapsto> JNull] (store catalog)"

definition stale_world :: "(string \<rightharpoonup> jsval) world" where
  "stale_world = new_resolver [''products:10:0'' \<mapsto> JArr [JObj mockProduct]] (store catalog)"

text \<open>The same list entry, as text without expiry, on a reachable server behind \<open>RedisService\<close>.\<close>

definition stale_redis :: "redis world" where
  "stale_redis =
     new_resolver (redis_up\<lparr>entries := [''products:10:0'' \<mapsto> (''[]'', None)]\<rparr>) (store catalog)"



text \<open>The row the store adds for \<open>mockInput\<close>.\<close>

definition newProduct :: obj where
  "newProduct =
     [(''id'', JStr ''2''), (''name'', JStr ''Neues Produkt''),
      (''description'', JStr ''Detaillierte Beschreibung''), (''price'', JNum 99),
      (''sku'', JUndefined), (''brand'', JUndefined), (''stock'', JNum 50),
      (''category_id'', JStr ''fd5f0dfe-a9ed-4234-b0a0-afc3c187c10b'')]"

text \<open>
  Stores that reject statements: the second statement (the product's \<open>INSERT\<close>) only;
  the second and the third (the \<open>ROLLBACK\<close> that follows); and the fourth of an input
  with two variants (the second variant's \<open>INSERT\<close>).
\<close>

definition faulty :: "(nat \<Rightarrow> error option) \<Rightarrow> pg" where
  "faulty f = (store catalog)\<lparr>fail_at := f\<rparr>"

definition insert_fails :: "nat \<Rightarrow> error option" where
  "insert_fails n = (if n = 1 then Some (StoreError ''duplicate key value'') else None)"

definition insert_and_rollback_fail :: "nat \<Rightarrow> error option" where
  "insert_and_rollback_fail n =
     (if n = 1 then Some (StoreError ''duplicate key value'')
      else if n = 2 then Some (StoreError ''Connection terminated unexpectedly'')
      else None)"

definition second_variant_fails :: "nat \<Rightarrow> error option" where
  "second_variant_fails n = (if n = 3 then Some (StoreError ''violates check constraint'') else None)"

section \<open>Unfolding and evaluation\<close>

lemmas calls_defs = redis_get_def redis_set_def redis_del_def pool_query_def
lemmas reads_defs = products_def product_query_def category_def reviews_def variants_def
lemmas key_defs = products_cacheKey_def product_cacheKey_def category_cacheKey_def
  reviews_cacheKey_def variants_cacheKey_def
lemmas scenario_defs = mem_client_def new_resolver_def store_def catalog_def mockProduct_def
  mockCategory_def redis_up_def redis_down_def

lemma show_int_small [simp]: "show_int 10 = ''10''" "show_int 0 = ''0''"
  by (simp_all add: show_int_def show_nat.simps digit_def)

lemma new_calls_append: "calls w' = calls w @ qs \<Longrightarrow> new_calls w w' = qs"
  by (simp add: new_calls_def)

lemma cache_keys_append [simp]: "cache_keys (xs @ ys) = cache_keys xs @ cache_keys ys"
  by (induction xs rule: cache_keys.induct) simp_all

lemma cache_calls_simps [simp]:
  "cache_calls [] = []"
  "cache_calls (xs @ ys) = cache_calls xs @ cache_calls ys"
  "cache_calls (x # xs) = (if is_cache_call x then x # cache_calls xs else cache_calls xs)"
  by (simp_all add: cache_calls_def)

lemma no_cache_calls: "cache_calls es = [] \<Longrightarrow> CacheDel k \<notin> set es"
  by (auto simp: cache_calls_def filter_empty_conv)

lemma statements_append [simp]: "statements (xs @ ys) = statements xs @ statements ys"
  by (induction xs rule: statements.induct) simp_all

section \<open>The claims\<close>

text \<open>
  C6. Every cache key the read paths compute is the instance of its declared template,
  character for character: \<open>products:{limit}:{offset}\<close>, \<open>product:{id}\<close>,
  \<open>category:{id}\<close>, \<open>reviews:{productId}\<close>, \<open>variants:{productId}\<close>. And each read
  path uses that key and no other: its cache calls are exactly one \<open>get\<close> on the key,
  followed by at most one \<open>set\<close> on the same key with the path's lifetime (300, 3600,
  3600, 1800 and 1800 seconds). The category resolver, which throws before it computes
  a key when the side table has no row for the product, makes no cache call then.
\<close>

theorem cache_keys_match_templates:
  "products_cacheKey limit offset =
     template_instance ''products:{limit}:{offset}''
       [(''limit'', show_int limit), (''offset'', show_int offset)] \<and>
   product_cacheKey pid = template_instance ''product:{id}'' [(''id'', pid)] \<and>
   category_cacheKey cid = template_instance ''category:{id}'' [(''id'', js_toString cid)] \<and>
   reviews_cacheKey (js_field p ''id'') =
     template_instance ''reviews:{productId}'' [(''productId'', js_toString (js_field p ''id''))] \<and>
   variants_cacheKey (js_field p ''id'') =
     template_instance ''variants:{productId}'' [(''productId'', js_toString (js_field p ''id''))] \<and>
   set (cache_keys (new_calls w (snd (products cc limit offset w)))) \<subseteq> {products_cacheKey limit offset} \<and>
   set (cache_keys (new_calls w (snd (product_query cc pid w)))) \<subseteq> {product_cacheKey pid} \<and>
   set (cache_keys (new_calls w (snd (category cc p w)))) \<subseteq>
     (case productData w (js_field p ''id'') of
        None \<Rightarrow> {}
      | Some raw \<Rightarrow> {category_cacheKey (js_field raw ''category_id'')}) \<and>
   set (cache_keys (new_calls w (snd (reviews cc p w)))) \<subseteq> {reviews_cacheKey (js_field p ''id'')} \<and>
   set (cache_keys (new_calls w (snd (variants cc p w)))) \<subseteq> {variants_cacheKey (js_field p ''id'')} \<and>
   (cache_calls (new_calls w (snd (products cc limit offset w))) =
      [CacheGet (products_cacheKey limit offset)] \<or>
    (\<exists>v. cache_calls (new_calls w (snd (products cc limit offset w))) =
      [CacheGet (products_cacheKey limit offset),
       CacheSet (products_cacheKey limit offset) v (Some 300)])) \<and>
   (cache_calls (new_calls w (snd (product_query cc pid w))) = [CacheGet (product_cacheKey pid)] \<or>
    (\<exists>v. cache_calls (new_calls w (snd (product_query cc pid w))) =
      [CacheGet (product_cacheKey pid), CacheSet (product_cacheKey pid) v (Some 3600)])) \<and>
   (case productData w (js_field p ''id'') of
      None \<Rightarrow> cache_calls (new_calls w (snd (category cc p w))) = []
    | Some raw \<Rightarrow>
        cache_calls (new_calls w (snd (category cc p w))) =
          [CacheGet (category_cacheKey (js_field raw ''category_id''))] \<or>
        (\<exists>v. cache_calls (new_calls w (snd (category cc p w))) =
          [CacheGet (category_cacheKey (js_field raw ''category_id'')),
           CacheSet (category_cacheKey (js_field raw ''category_id'')) v (Some 3600)])) \<and>
   (cache_calls (new_calls w (snd (reviews cc p w))) =
      [CacheGet (reviews_cacheKey (js_field p ''id''))] \<or>
    (\<exists>v. cache_calls (new_calls w (snd (reviews cc p w))) =
      [CacheGet (reviews_cacheKey (js_field p ''id'')),
       CacheSet (reviews_cacheKey (js_field p ''id'')) v (Some 1800)])) \<and>
   (cache_calls (new_calls w (snd (variants cc p w))) =
      [CacheGet (variants_cacheKey (js_field p ''id''))] \<or>
    (\<exists>v. cache_calls (new_calls w (snd (variants cc p w))) =
      [CacheGet (variants_cacheKey (js_field p ''id'')),
       CacheSet (variants_cacheKey (js_field p ''id'')) v (Some 1800)]))"
proof -
  have keys:
    "products_cacheKey limit offset =
       template_instance ''products:{limit}:{offset}''
         [(''limit'', show_int limit), (''offset'', show_int offset)]"
    "product_cacheKey pid = template_instance ''product:{id}'' [(''id'', pid)]"
    "category_cacheKey cid = template_instance ''category:{id}'' [(''id'', js_toString cid)]"
    "reviews_cacheKey (js_field p ''id'') =
       template_instance ''reviews:{productId}'' [(''productId'', js_toString (js_field p ''id''))]"
    "variants_cacheKey (js_field p ''id'') =
       template_instance ''variants:{productId}'' [(''productId'', js_toString (js_field p ''id''))]"
    by (simp_all add: key_defs template_instance_def)
  have a: "set (cache_keys (new_calls w (snd (products cc limit offset w)))) \<subseteq> {products_cacheKey limit offset}"
    by (auto simp: products_def calls_defs new_calls_def Let_def split: prod.splits sum.splits if_splits)
  have b: "set (cache_keys (new_calls w (snd (product_query cc pid w)))) \<subseteq> {product_cacheKey pid}"
    by (auto simp: product_query_def calls_defs new_calls_def Let_def
        split: prod.splits sum.splits if_splits list.splits)
  have c: "set (cache_keys (new_calls w (snd (category cc p w)))) \<subseteq>
     (case productData w (js_field p ''id'') of
        None \<Rightarrow> {}
      | Some raw \<Rightarrow> {category_cacheKey (js_field raw ''category_id'')})"
    by (auto simp: category_def calls_defs new_calls_def Let_def
        split: prod.splits sum.splits if_splits list.splits option.splits)
  have d: "set (cache_keys (new_calls w (snd (reviews cc p w)))) \<subseteq> {reviews_cacheKey (js_field p ''id'')}"
    by (auto simp: reviews_def calls_defs new_calls_def Let_def
        split: prod.splits sum.splits if_splits)
  have e: "set (cache_keys (new_calls w (snd (variants cc p w)))) \<subseteq> {variants_cacheKey (js_field p ''id'')}"
    by (auto simp: variants_def calls_defs new_calls_def Let_def
        split: prod.splits sum.splits if_splits)
  have a': "cache_calls (new_calls w (snd (products cc limit offset w))) =
      [CacheGet (products_cacheKey limit offset)] \<or>
    (\<exists>v. cache_calls (new_calls w (snd (products cc limit offset w))) =
      [CacheGet (products_cacheKey limit offset),
       CacheSet (products_cacheKey limit offset) v (Some 300)])"
    by (simp add: products_def calls_defs new_calls_def Let_def split: prod.splits sum.splits)
  have b': "cache_calls (new_calls w (snd (product_query cc pid w))) = [CacheGet (product_cacheKey pid)] \<or>
    (\<exists>v. cache_calls (new_calls w (snd (product_query cc pid w))) =
      [CacheGet (product_cacheKey pid), CacheSet (product_cacheKey pid) v (Some 3600)])"
    by (simp add: product_query_def calls_defs new_calls_def Let_def
        split: prod.splits sum.splits list.splits)
  have c': "case productData w (js_field p ''id'') of
      None \<Rightarrow> cache_calls (new_calls w (snd (category cc p w))) = []
    | Some raw \<Rightarrow>
        cache_calls (new_calls w (snd (category cc p w))) =
          [CacheGet (category_cacheKey (js_field raw ''category_id''))] \<or>
        (\<exists>v. cache_calls (new_calls w (snd (category cc p w))) =
          [CacheGet (category_cacheKey (js_field raw ''category_id'')),
           CacheSet (category_cacheKey (js_field raw ''category_id'')) v (Some 3600)])"
    by (simp add: category_def calls_defs new_calls_def Let_def
        split: prod.splits sum.splits list.splits option.splits)
  have d': "cache_calls (new_calls w (snd (reviews cc p w))) =
      [CacheGet (reviews_cacheKey (js_field p ''id''))] \<or>
    (\<exists>v. cache_calls (new_calls w (snd (reviews cc p w))) =
      [CacheGet (reviews_cacheKey (js_field p ''id'')),
       CacheSet (reviews_cacheKey (js_field p ''id'')) v (Some 1800)])"
    by (simp add: reviews_def calls_defs new_calls_def Let_def split: prod.splits sum.splits)
  have e': "cache_calls (new_calls w (snd (variants cc p w))) =
      [CacheGet (variants_cacheKey (js_field p ''id''))] \<or>
    (\<exists>v. cache_calls (new_calls w (snd (variants cc p w))) =
      [CacheGet (variants_cacheKey (js_field p ''id'')),
       CacheSet (variants_cacheKey (js_field p ''id'')) v (Some 1800)])"
    by (simp add: variants_def calls_defs new_calls_def Let_def split: prod.splits sum.splits)
  from keys a b c d e a' b' c' d' e' show ?thesis by blast
qed

text \<open>
  The five keys of product \<open>1\<close> and of the list \<open>(10, 0)\<close>; the \<open>get\<close> and the \<open>set\<close> each of
  the five reads makes on an empty cache; the single \<open>get\<close> of a hit; and a category read
  without a side-table row.
\<close>

theorem cache_keys_match_templates_witness:
  "products_cacheKey 10 0 = ''products:10:0'' \<and>
   product_cacheKey ''1'' = ''product:1'' \<and>
   category_cacheKey (JStr ''cat1'') = ''category:cat1'' \<and>
   reviews_cacheKey (js_field mockProduct ''id'') = ''reviews:1'' \<and>
   variants_cacheKey (js_field mockProduct ''id'') = ''variants:1'' \<and>
   cache_calls (new_calls cold_world (snd (products mem_client 10 0 cold_world))) =
     [CacheGet ''products:10:0'',
      CacheSet ''products:10:0'' (JArr [JObj mockProduct]) (Some 300)] \<and>
   cache_calls (new_calls cold_world (snd (product_query mem_client ''1'' cold_world))) =
     [CacheGet ''product:1'', CacheSet ''product:1'' (JObj mockProduct) (Some 3600)] \<and>
   cache_calls (new_calls cold_world (snd (category mem_client mockProduct cold_world))) =
     [CacheGet ''category:cat1'',
      CacheSet ''category:cat1'' (JObj (mapCategoryDBToCategory mockCategory)) (Some 3600)] \<and>
   cache_calls (new_calls cold_world (snd (reviews mem_client mockProduct cold_world))) =
     [CacheGet ''reviews:1'', CacheSet ''reviews:1'' (JArr []) (Some 1800)] \<and>
   cache_calls (new_calls cold_world (snd (variants mem_client mockProduct cold_world))) =
     [CacheGet ''variants:1'', CacheSet ''variants:1'' (JArr []) (Some 1800)] \<and>
   cache_calls (new_calls warm_world (snd (reviews mem_client mockProduct warm_world))) =
     [CacheGet ''reviews:1''] \<and>
   cache_calls (new_calls (new_resolver Map.empty (store catalog))
      (snd (category mem_client mockProduct (new_resolver Map.empty (store catalog))))) = []"
  using cache_keys_match_templates
    [of 10 0 "''1''" "JStr ''cat1''" mockProduct cold_world mem_client]
  by (simp add: template_instance_def js_field_def reads_defs calls_defs key_defs scenario_defs
      cold_world_def warm_world_def new_calls_def Let_def)

lemma mock_fields:
  "js_field mockProduct ''id'' = JStr ''1''"
  "js_field mockProduct ''category_id'' = JStr ''cat1''"
  by (simp_all add: js_field_def mockProduct_def)

text \<open>
  C5, as amended. For each of the five reads: if the cache client's \<open>get\<close> for the
  computed key yields a truthy value, the read returns exactly that value, and the only
  call it makes is that one \<open>get\<close>: no statement goes to the store and nothing else
  changes. (The category resolver computes its key from the side table's row, which must
  be there.)
\<close>

theorem cache_hit_short_circuits:
  "(cget cc (products_cacheKey limit offset) (cache w) = (Inr v, c') \<and> truthy v \<longrightarrow>
      products cc limit offset w =
        (Inr v, w\<lparr>cache := c', calls := calls w @ [CacheGet (products_cacheKey limit offset)]\<rparr>)) \<and>
   (cget cc (product_cacheKey pid) (cache w) = (Inr v, c') \<and> truthy v \<longrightarrow>
      product_query cc pid w =
        (Inr v, w\<lparr>cache := c', calls := calls w @ [CacheGet (product_cacheKey pid)]\<rparr>)) \<and>
   (productData w (js_field p ''id'') = Some raw \<and>
    cget cc (category_cacheKey (js_field raw ''category_id'')) (cache w) = (Inr v, c') \<and> truthy v \<longrightarrow>
      category cc p w =
        (Inr v, w\<lparr>cache := c',
                  calls := calls w @ [CacheGet (category_cacheKey (js_field raw ''category_id''))]\<rparr>)) \<and>
   (cget cc (reviews_cacheKey (js_field p ''id'')) (cache w) = (Inr v, c') \<and> truthy v \<longrightarrow>
      reviews cc p w =
        (Inr v, w\<lparr>cache := c', calls := calls w @ [CacheGet (reviews_cacheKey (js_field p ''id''))]\<rparr>)) \<and>
   (cget cc (variants_cacheKey (js_field p ''id'')) (cache w) = (Inr v, c') \<and> truthy v \<longrightarrow>
      variants cc p w =
        (Inr v, w\<lparr>cache := c', calls := calls w @ [CacheGet (variants_cacheKey (js_field p ''id''))]\<rparr>))"
  by (simp add: reads_defs redis_get_def)

lemma warm_simps:
  "cache warm_world ''products:10:0'' = Some (JArr [JObj (mapProductDBToProduct mockProduct)])"
  "cache warm_world ''product:1'' = Some (JObj mockProduct)"
  "cache warm_world ''category:cat1'' = Some (JObj (mapCategoryDBToCategory mockCategory))"
  "cache warm_world ''reviews:1'' = Some (JArr [])"
  "cache warm_world ''variants:1'' = Some (JArr [])"
  "productData warm_world (JStr ''1'') = Some mockProduct"
  "calls warm_world = []"
  by (simp_all add: warm_world_def new_resolver_def)

text \<open>A warm cache: each read returns what the cache holds, two of them an empty list.\<close>

theorem cache_hit_short_circuits_witness:
  "fst (products mem_client 10 0 warm_world) = Inr (JArr [JObj (mapProductDBToProduct mockProduct)]) \<and>
   calls (snd (products mem_client 10 0 warm_world)) = [CacheGet ''products:10:0''] \<and>
   fst (product_query mem_client ''1'' warm_world) = Inr (JObj mockProduct) \<and>
   calls (snd (product_query mem_client ''1'' warm_world)) = [CacheGet ''product:1''] \<and>
   fst (category mem_client mockProduct warm_world) = Inr (JObj (mapCategoryDBToCategory mockCategory)) \<and>
   calls (snd (category mem_client mockProduct warm_world)) = [CacheGet ''category:cat1''] \<and>
   fst (reviews mem_client mockProduct warm_world) = Inr (JArr []) \<and>
   calls (snd (reviews mem_client mockProduct warm_world)) = [CacheGet ''reviews:1''] \<and>
   fst (variants mem_client mockProduct warm_world) = Inr (JArr []) \<and>
   calls (snd (variants mem_client mockProduct warm_world)) = [CacheGet ''variants:1'']"
  using
    cache_hit_short_circuits [of mem_client 10 0 warm_world
      "JArr [JObj (mapProductDBToProduct mockProduct)]" "cache warm_world"]
    cache_hit_short_circuits [of mem_client _ _ warm_world "JObj mockProduct" "cache warm_world" "''1''"]
    cache_hit_short_circuits [of mem_client _ _ warm_world
      "JObj (mapCategoryDBToCategory mockCategory)" "cache warm_world" _ mockProduct mockProduct]
    cache_hit_short_circuits [of mem_client _ _ warm_world "JArr []" "cache warm_world" _ mockProduct]
  by (simp add: mem_client_def warm_simps mock_fields key_defs)

text \<open>
  C5 as stated fails: a key that is present with a falsy value (\<open>false\<close> under
  \<open>product:1\<close>, \<open>null\<close> under \<open>product:2\<close>) is not a hit; the read queries the store.
\<close>

theorem cache_hit_counterexample:
  "product_cacheKey ''1'' \<in> dom (cache falsy_world) \<and>
   calls (snd (product_query mem_client ''1'' falsy_world)) =
     [CacheGet ''product:1'', Query ProductById [JStr ''1''],
      CacheSet ''product:1'' (JObj mockProduct) (Some 3600)] \<and>
   fst (product_query mem_client ''1'' falsy_world) = Inr (JObj mockProduct) \<and>
   product_cacheKey ''2'' \<in> dom (cache falsy_world) \<and>
   calls (snd (product_query mem_client ''2'' falsy_world)) =
     [CacheGet ''product:2'', Query ProductById [JStr ''2'']]"
  by (simp add: falsy_world_def product_query_def calls_defs key_defs mem_client_def
      new_resolver_def store_def catalog_def Let_def)

text \<open>
  C3, as amended. For each of the five reads: if the cache client's \<open>get\<close> rejects with
  an error, the read rejects with that same error, and the only call it made is that
  \<open>get\<close>: the store is never asked.
\<close>

theorem cache_failure_propagates:
  "(cget cc (products_cacheKey limit offset) (cache w) = (Inl e, c') \<longrightarrow>
      products cc limit offset w =
        (Inl e, w\<lparr>cache := c', calls := calls w @ [CacheGet (products_cacheKey limit offset)]\<rparr>)) \<and>
   (cget cc (product_cacheKey pid) (cache w) = (Inl e, c') \<longrightarrow>
      product_query cc pid w =
        (Inl e, w\<lparr>cache := c', calls := calls w @ [CacheGet (product_cacheKey pid)]\<rparr>)) \<and>
   (productData w (js_field p ''id'') = Some raw \<and>
    cget cc (category_cacheKey (js_field raw ''category_id'')) (cache w) = (Inl e, c') \<longrightarrow>
      category cc p w =
        (Inl e, w\<lparr>cache := c',
                  calls := calls w @ [CacheGet (category_cacheKey (js_field raw ''category_id''))]\<rparr>)) \<and>
   (cget cc (reviews_cacheKey (js_field p ''id'')) (cache w) = (Inl e, c') \<longrightarrow>
      reviews cc p w =
        (Inl e, w\<lparr>cache := c', calls := calls w @ [CacheGet (reviews_cacheKey (js_field p ''id''))]\<rparr>)) \<and>
   (cget cc (variants_cacheKey (js_field p ''id'')) (cache w) = (Inl e, c') \<longrightarrow>
      variants cc p w =
        (Inl e, w\<lparr>cache := c', calls := calls w @ [CacheGet (variants_cacheKey (js_field p ''id''))]\<rparr>))"
  by (simp add: reads_defs redis_get_def)

text \<open>With the server unreachable and the service not connected, \<open>get\<close> rethrows the ping's error.\<close>

lemma RedisService_get_down:
  "\<not> reachable s \<Longrightarrow> \<not> isConnected s \<Longrightarrow>
   RedisService_get j k s = (Inl MaxRetriesPerRequestError, s)"
  by (simp add: RedisService_get_def ensureConnection_def client_ping_def unreachable_def)

lemma down_simps:
  "cache down_world = redis_down" "calls down_world = []"
  "productData down_world (JStr ''1'') = Some mockProduct"
  "\<not> reachable redis_down" "\<not> isConnected redis_down"
  "rows_for (db down_world) = catalog"
  by (simp_all add: down_world_def new_resolver_def redis_down_def store_def)

text \<open>The five reads over \<open>RedisService\<close> with its server unreachable.\<close>

theorem cache_failure_propagates_witness:
  "\<forall>j. fst (products (redisService j) 10 0 down_world) = Inl MaxRetriesPerRequestError \<and>
       calls (snd (products (redisService j) 10 0 down_world)) = [CacheGet ''products:10:0''] \<and>
       fst (product_query (redisService j) ''1'' down_world) = Inl MaxRetriesPerRequestError \<and>
       calls (snd (product_query (redisService j) ''1'' down_world)) = [CacheGet ''product:1''] \<and>
       fst (category (redisService j) mockProduct down_world) = Inl MaxRetriesPerRequestError \<and>
       calls (snd (category (redisService j) mockProduct down_world)) = [CacheGet ''category:cat1''] \<and>
       fst (reviews (redisService j) mockProduct down_world) = Inl MaxRetriesPerRequestError \<and>
       calls (snd (reviews (redisService j) mockProduct down_world)) = [CacheGet ''reviews:1''] \<and>
       fst (variants (redisService j) mockProduct down_world) = Inl MaxRetriesPerRequestError \<and>
       calls (snd (variants (redisService j) mockProduct down_world)) = [CacheGet ''variants:1'']"
proof
  fix j
  show "fst (products (redisService j) 10 0 down_world) = Inl MaxRetriesPerRequestError \<and>
       calls (snd (products (redisService j) 10 0 down_world)) = [CacheGet ''products:10:0''] \<and>
       fst (product_query (redisService j) ''1'' down_world) = Inl MaxRetriesPerRequestError \<and>
       calls (snd (product_query (redisService j) ''1'' down_world)) = [CacheGet ''product:1''] \<and>
       fst (category (redisService j) mockProduct down_world) = Inl MaxRetriesPerRequestError \<and>
       calls (snd (category (redisService j) mockProduct down_world)) = [CacheGet ''category:cat1''] \<and>
       fst (reviews (redisService j) mockProduct down_world) = Inl MaxRetriesPerRequestError \<and>
       calls (snd (reviews (redisService j) mockProduct down_world)) = [CacheGet ''reviews:1''] \<and>
       fst (variants (redisService j) mockProduct down_world) = Inl MaxRetriesPerRequestError \<and>
       calls (snd (variants (redisService j) mockProduct down_world)) = [CacheGet ''variants:1'']"
    using cache_failure_propagates [of "redisService j" 10 0 down_world
        MaxRetriesPerRequestError redis_down "''1''" mockProduct mockProduct]
    by (simp add: redisService_def RedisService_get_down down_simps mock_fields key_defs)
qed

text \<open>
  C3 as stated fails: with the cache server unreachable the list read rejects and sends
  no statement, though the store would answer with a row, as the same read over an empty
  working cache shows.
\<close>

theorem cache_failure_counterexample:
  "\<forall>j. fst (products (redisService j) 10 0 down_world) = Inl MaxRetriesPerRequestError \<and>
       statements (calls (snd (products (redisService j) 10 0 down_world))) = [] \<and>
       rows_for (db down_world) ListProducts [JNum 10, JNum 0] = Inr [mockProduct] \<and>
       fst (products mem_client 10 0 (new_resolver Map.empty (store catalog))) =
         Inr (JArr [JObj (mapProductDBToProduct mockProduct)])"
  by (simp add: products_def calls_defs redisService_def RedisService_get_down down_simps key_defs
      catalog_def mem_client_def new_resolver_def store_def Let_def)

text \<open>
  C7. A single-product lookup that misses the cache and gets no row from the store returns
  \<open>null\<close> as a value, not an error, after exactly one \<open>get\<close> and one statement: no
  \<open>set\<close> is made. A second lookup that misses again sends the statement again. A store
  error, by contrast, is the lookup's error.
\<close>

theorem product_not_found_is_null_and_uncached:
  "(cget cc (product_cacheKey pid) (cache w) = (Inr v, c1) \<and> \<not> truthy v \<and>
    rows_for (db w) ProductById [JStr pid] = Inr [] \<longrightarrow>
      product_query cc pid w =
        (Inr JNull,
         w\<lparr>cache := c1,
           calls := calls w @ [CacheGet (product_cacheKey pid), Query ProductById [JStr pid]]\<rparr>) \<and>
      (cget cc (product_cacheKey pid) c1 = (Inr v2, c2) \<and> \<not> truthy v2 \<longrightarrow>
         product_query cc pid (snd (product_query cc pid w)) =
           (Inr JNull,
            w\<lparr>cache := c2,
              calls := calls w @
                [CacheGet (product_cacheKey pid), Query ProductById [JStr pid],
                 CacheGet (product_cacheKey pid), Query ProductById [JStr pid]]\<rparr>))) \<and>
   (cget cc (product_cacheKey pid) (cache w) = (Inr v, c1) \<and> \<not> truthy v \<and>
    rows_for (db w) ProductById [JStr pid] = Inl e \<longrightarrow>
      product_query cc pid w =
        (Inl e,
         w\<lparr>cache := c1,
           calls := calls w @ [CacheGet (product_cacheKey pid), Query ProductById [JStr pid]]\<rparr>))"
  by (simp add: product_query_def redis_get_def pool_query_def Let_def)

text \<open>Product \<open>42\<close>, which the store does not have, looked up twice.\<close>

theorem product_not_found_is_null_and_uncached_witness:
  "fst (product_query mem_client ''42'' (new_resolver Map.empty (store catalog))) = Inr JNull \<and>
   calls (snd (product_query mem_client ''42'' (new_resolver Map.empty (store catalog)))) =
     [CacheGet ''product:42'', Query ProductById [JStr ''42'']] \<and>
   cache (snd (product_query mem_client ''42'' (new_resolver Map.empty (store catalog)))) = Map.empty \<and>
   calls (snd (product_query mem_client ''42''
            (snd (product_query mem_client ''42'' (new_resolver Map.empty (store catalog)))))) =
     [CacheGet ''product:42'', Query ProductById [JStr ''42''],
      CacheGet ''product:42'', Query ProductById [JStr ''42'']]"
  using product_not_found_is_null_and_uncached
    [of mem_client "''42''" "new_resolver Map.empty (store catalog)" JNull Map.empty JNull Map.empty]
  by (simp add: product_query_def calls_defs mem_client_def new_resolver_def store_def catalog_def key_defs Let_def)

text \<open>What a list read does on a miss when the store has rows and \<open>set\<close> succeeds.\<close>

lemma products_miss:
  "cget cc (products_cacheKey limit offset) (cache w) = (Inr v, c1) \<Longrightarrow> \<not> truthy v \<Longrightarrow>
   rows_for (db w) ListProducts [JNum limit, JNum offset] = Inr rows \<Longrightarrow>
   cset cc (products_cacheKey limit offset) (JArr (map JObj rows)) (Some 300) c1 = (Inr (), c2) \<Longrightarrow>
   products cc limit offset w =
     (Inr (JArr (map (\<lambda>row. JObj (mapProductDBToProduct row)) rows)),
      w\<lparr>cache := c2,
        calls := calls w @
          [CacheGet (products_cacheKey limit offset), Query ListProducts [JNum limit, JNum offset],
           CacheSet (products_cacheKey limit offset) (JArr (map JObj rows)) (Some 300)],
        productData := foldl (\<lambda>m row. m(js_field row ''id'' \<mapsto> row)) (productData w) rows\<rparr>)"
  by (simp add: products_def calls_defs Let_def)

lemma scenario_A:
  "products mem_client 10 0 (new_resolver Map.empty (store catalog)) =
     (Inr (JArr [JObj (mapProductDBToProduct mockProduct)]),
      (new_resolver [''products:10:0'' \<mapsto> JArr [JObj mockProduct]] (store catalog))
        \<lparr>calls := [CacheGet ''products:10:0'', Query ListProducts [JNum 10, JNum 0],
                   CacheSet ''products:10:0'' (JArr [JObj mockProduct]) (Some 300)],
         productData := [JStr ''1'' \<mapsto> mockProduct]\<rparr>)"
  by (simp add: products_def calls_defs mem_client_def new_resolver_def store_def catalog_def
      key_defs mock_fields Let_def)

text \<open>
  C4 fails on the code. A list read that misses writes the store's raw rows to the cache
  and returns the rows mapped by \<open>mapProductDBToProduct\<close>; the next read of the same
  page is a hit and returns the raw rows, which carry fields (\<open>category_id\<close>,
  \<open>is_active\<close>) the first result did not.
\<close>

theorem products_caches_raw_rows:
  "fst (products mem_client 10 0 (new_resolver Map.empty (store catalog))) =
     Inr (JArr [JObj (mapProductDBToProduct mockProduct)]) \<and>
   cache (snd (products mem_client 10 0 (new_resolver Map.empty (store catalog)))) ''products:10:0'' =
     Some (JArr [JObj mockProduct]) \<and>
   fst (products mem_client 10 0 (snd (products mem_client 10 0 (new_resolver Map.empty (store catalog))))) =
     Inr (JArr [JObj mockProduct]) \<and>
   JArr [JObj mockProduct] \<noteq> JArr [JObj (mapProductDBToProduct mockProduct)] \<and>
   js_field mockProduct ''category_id'' = JStr ''cat1'' \<and>
   js_field (mapProductDBToProduct mockProduct) ''category_id'' = JUndefined"
  by (simp add: scenario_A)
    (simp add: products_def calls_defs mem_client_def new_resolver_def key_defs
      mapProductDBToProduct_def mockProduct_def js_field_def Let_def)

subsection \<open>What the mutation leaves alone\<close>

lemma client_query_frame:
  "productData (snd (client_query q ps w)) = productData w"
  "cache (snd (client_query q ps w)) = cache w"
  by (simp_all add: client_query_def split: prod.splits)

lemma insert_variants_frame:
  "productData (snd (insert_variants product vs w)) = productData w \<and>
   cache (snd (insert_variants product vs w)) = cache w"
proof (induction vs arbitrary: w)
  case Nil
  show ?case by simp
next
  case (Cons variant rest)
  show ?case
  proof (cases "js_prop product ''id''")
    case (Inl e)
    then show ?thesis by simp
  next
    case pid: (Inr pid)
    show ?thesis
    proof (cases "js_props variant [''color'', ''size'', ''price'', ''stock'']")
      case (Inl e)
      with pid show ?thesis by simp
    next
      case ps: (Inr ps)
      obtain r w1 where q: "client_query InsertVariant (pid # ps) w = (r, w1)"
        by (cases "client_query InsertVariant (pid # ps) w")
      have w1: "productData w1 = productData w" "cache w1 = cache w"
        using client_query_frame [of InsertVariant "pid # ps" w] q by simp_all
      show ?thesis
      proof (cases r)
        case (Inl e)
        with pid ps q w1 show ?thesis by simp
      next
        case (Inr rows)
        with pid ps q w1 Cons.IH [of w1] show ?thesis by simp
      qed
    qed
  qed
qed

lemma createProduct_try_productData:
  "productData (snd (createProduct_try cc input w)) = productData w"
proof -
  have iv: "\<And>p vs w'. productData (snd (insert_variants p vs w')) = productData w'"
    using insert_variants_frame by blast
  have cq: "\<And>q ps w' r w''. client_query q ps w' = (r, w'') \<Longrightarrow> productData w'' = productData w'"
    using client_query_frame(1) by (metis snd_conv)
  have iv': "\<And>p vs w' r w''. insert_variants p vs w' = (r, w'') \<Longrightarrow> productData w'' = productData w'"
    using iv by (metis snd_conv)
  show ?thesis
    unfolding createProduct_try_def
    by (auto simp: redis_del_def Let_def split: prod.splits sum.splits jsval.splits if_splits
        dest!: cq iv')
qed

lemma createProduct_productData:
  "productData (snd (createProduct cc validate input w)) = productData w"
proof -
  have t: "\<And>w' r w''. createProduct_try cc input w' = (r, w'') \<Longrightarrow> productData w'' = productData w'"
    using createProduct_try_productData by (metis snd_conv)
  have cq: "\<And>q ps w' r w''. client_query q ps w' = (r, w'') \<Longrightarrow> productData w'' = productData w'"
    using client_query_frame(1) by (metis snd_conv)
  show ?thesis
    unfolding createProduct_def
    by (auto simp: pool_connect_def client_release_def split: prod.splits sum.splits option.splits
        dest!: t cq)
qed


text \<open>
  C9. The category resolver throws \<open>Product data not found\<close>, touching neither cache nor
  store, unless the resolver's side table has a row under the product's id; so it succeeds
  only with such a row. A new resolver's table is empty. No method but the list query
  changes the table, and the list query changes it only on its miss branch, adding the
  rows the store returned. Hence, from a table without the product: after \<open>product(id)\<close>,
  after a list hit, and on a new resolver, the category resolver throws.
\<close>

theorem category_needs_side_table:
  "(productData w (js_field p ''id'') = None \<longrightarrow>
      category cc p w = (Inl (Error ''Product data not found''), w)) \<and>
   (fst (category cc p w) = Inr c \<longrightarrow> productData w (js_field p ''id'') \<noteq> None) \<and>
   productData (new_resolver c0 s0) = Map.empty \<and>
   fst (category cc p (new_resolver c0 s0)) = Inl (Error ''Product data not found'') \<and>
   productData (snd (product_query cc pid w)) = productData w \<and>
   productData (snd (category cc p w)) = productData w \<and>
   productData (snd (reviews cc p w)) = productData w \<and>
   productData (snd (variants cc p w)) = productData w \<and>
   productData (snd (createProduct cc validate input w)) = productData w \<and>
   (productData (snd (products cc limit offset w)) = productData w \<or>
    (\<exists>v c1 rows.
       cget cc (products_cacheKey limit offset) (cache w) = (Inr v, c1) \<and> \<not> truthy v \<and>
       rows_for (db w) ListProducts [JNum limit, JNum offset] = Inr rows \<and>
       productData (snd (products cc limit offset w)) =
         foldl (\<lambda>m row. m(js_field row ''id'' \<mapsto> row)) (productData w) rows)) \<and>
   (productData w (js_field p ''id'') = None \<longrightarrow>
      fst (category cc p (snd (product_query cc pid w))) = Inl (Error ''Product data not found'')) \<and>
   (productData w (js_field p ''id'') = None \<and>
    cget cc (products_cacheKey limit offset) (cache w) = (Inr hit, c') \<and> truthy hit \<longrightarrow>
      fst (category cc p (snd (products cc limit offset w))) = Inl (Error ''Product data not found''))"
proof -
  have missing: "\<And>w'. productData w' (js_field p ''id'') = None \<Longrightarrow>
      category cc p w' = (Inl (Error ''Product data not found''), w')"
    by (simp add: category_def)
  have only_if: "fst (category cc p w) = Inr c \<longrightarrow> productData w (js_field p ''id'') \<noteq> None"
    using missing [of w] by (cases "productData w (js_field p ''id'')") auto
  have fresh: "productData (new_resolver c0 s0) = Map.empty"
    by (simp add: new_resolver_def)
  have q: "productData (snd (product_query cc pid w)) = productData w"
    by (auto simp: product_query_def calls_defs Let_def
        split: prod.splits sum.splits if_splits list.splits)
  have cat: "productData (snd (category cc p w)) = productData w"
    by (auto simp: category_def calls_defs Let_def
        split: prod.splits sum.splits if_splits list.splits option.splits)
  have rev: "productData (snd (reviews cc p w)) = productData w"
    by (auto simp: reviews_def calls_defs Let_def split: prod.splits sum.splits if_splits)
  have var: "productData (snd (variants cc p w)) = productData w"
    by (auto simp: variants_def calls_defs Let_def split: prod.splits sum.splits if_splits)
  have list: "productData (snd (products cc limit offset w)) = productData w \<or>
    (\<exists>v c1 rows.
       cget cc (products_cacheKey limit offset) (cache w) = (Inr v, c1) \<and> \<not> truthy v \<and>
       rows_for (db w) ListProducts [JNum limit, JNum offset] = Inr rows \<and>
       productData (snd (products cc limit offset w)) =
         foldl (\<lambda>m row. m(js_field row ''id'' \<mapsto> row)) (productData w) rows)"
    by (auto simp: products_def calls_defs Let_def split: prod.splits sum.splits if_splits)
  have hit: "cget cc (products_cacheKey limit offset) (cache w) = (Inr hit, c') \<and> truthy hit \<longrightarrow>
      productData (snd (products cc limit offset w)) = productData w"
    by (simp add: products_def redis_get_def Let_def)
  show ?thesis
    using missing [of w] only_if fresh missing [of "new_resolver c0 s0"] q cat rev var
      createProduct_productData [of cc validate input w] list
      missing [of "snd (product_query cc pid w)"]
      missing [of "snd (products cc limit offset w)"] hit
    by simp
qed

text \<open>
  Product \<open>1\<close> obtained by id, by a list hit, and on another resolver: the category
  resolver throws each time. After a list miss on the same resolver it resolves.
\<close>

theorem category_needs_side_table_witness:
  "fst (product_query mem_client ''1'' (new_resolver Map.empty (store catalog))) = Inr (JObj mockProduct) \<and>
   fst (category mem_client mockProduct
          (snd (product_query mem_client ''1'' (new_resolver Map.empty (store catalog))))) =
     Inl (Error ''Product data not found'') \<and>
   fst (products mem_client 10 0 stale_world) = Inr (JArr [JObj mockProduct]) \<and>
   fst (category mem_client mockProduct (snd (products mem_client 10 0 stale_world))) =
     Inl (Error ''Product data not found'') \<and>
   fst (category mem_client mockProduct (new_resolver [''products:10:0'' \<mapsto> JArr [JObj mockProduct]] (store catalog))) =
     Inl (Error ''Product data not found'') \<and>
   fst (category mem_client (mapProductDBToProduct mockProduct)
          (snd (products mem_client 10 0 (new_resolver Map.empty (store catalog))))) =
     Inr (JObj (mapCategoryDBToCategory mockCategory))"
proof -
  let ?w = "new_resolver (Map.empty :: string \<rightharpoonup> jsval) (store catalog)"
  have a: "productData ?w (js_field mockProduct ''id'') = None"
    by (simp add: new_resolver_def)
  have b: "productData stale_world (js_field mockProduct ''id'') = None"
    by (simp add: stale_world_def new_resolver_def)
  have c: "cget mem_client (products_cacheKey 10 0) (cache stale_world) =
      (Inr (JArr [JObj mockProduct]), cache stale_world)"
    by (simp add: mem_client_def stale_world_def new_resolver_def key_defs)
  have d: "fst (product_query mem_client ''1'' ?w) = Inr (JObj mockProduct)"
    by (simp add: product_query_def calls_defs mem_client_def new_resolver_def store_def
        catalog_def key_defs Let_def)
  have e: "fst (products mem_client 10 0 stale_world) = Inr (JArr [JObj mockProduct])"
    by (simp add: products_def calls_defs mem_client_def stale_world_def new_resolver_def
        key_defs Let_def)
  have f: "fst (category mem_client (mapProductDBToProduct mockProduct)
          (snd (products mem_client 10 0 ?w))) = Inr (JObj (mapCategoryDBToCategory mockCategory))"
    by (simp add: scenario_A)
      (simp add: category_def calls_defs mem_client_def new_resolver_def store_def catalog_def
        key_defs mapProductDBToProduct_def mockProduct_def js_field_def Let_def)
  show ?thesis
    using category_needs_side_table [of ?w mockProduct mem_client _ _ _ "''1''"] a
      category_needs_side_table [of stale_world mockProduct mem_client _ _ _ _ _ _ 10 0
        "JArr [JObj mockProduct]" "cache stale_world"] b c
      category_needs_side_table [of _ mockProduct mem_client _
        "[''products:10:0'' \<mapsto> JArr [JObj mockProduct]]" "store catalog"]
      d e f
    by simp
qed

subsection \<open>RedisService behind its circuit breaker\<close>

text \<open>Fired with an async function, the breaker rejects, whatever the function.\<close>

lemma fire_AsyncFn:
  "fire (AsyncFn f) args s =
     (if breaker s = Open then (Inl (Error ''Breaker is open''), s\<lparr>fires := fires s + 1\<rparr>)
      else (Inl (TypeError ''this.client[command] is not a function''),
            record_failure (breaker s) (s\<lparr>fires := fires s + 1\<rparr>)))"
  by (simp add: fire_def breaker_action_def Let_def)

lemma record_failure_entries [simp]: "entries (record_failure b s) = entries s"
  by (simp add: record_failure_def Let_def)

lemma ensureConnection_entries:
  "entries (snd (ensureConnection s)) = entries s"
  by (simp add: ensureConnection_def client_ping_def unreachable_def)

text \<open>
  C10 fails on the code. In every state of the service, \<open>set\<close> rejects and stores nothing
  and \<open>get\<close> rejects: with the ping's error when the connection cannot be established,
  with the breaker's when the circuit is open, and otherwise with the \<open>TypeError\<close> of
  the breaker's action. On a connected service with a closed circuit that has seen no
  call it is the \<open>TypeError\<close>, and this one failed call opens the circuit: the \<open>get\<close>
  that follows the \<open>set\<close> rejects with the breaker's error. So no \<open>get\<close> after a
  \<open>set\<close> returns the value, or \<open>null\<close>.
\<close>

theorem RedisService_rejects_every_call:
  "fst (RedisService_set j k v ttl s) \<in>
     {Inl MaxRetriesPerRequestError, Inl (Error ''Breaker is open''),
      Inl (TypeError ''this.client[command] is not a function'')} \<and>
   entries (snd (RedisService_set j k v ttl s)) = entries s \<and>
   fst (RedisService_get j k s) \<in>
     {Inl MaxRetriesPerRequestError, Inl (Error ''Breaker is open''),
      Inl (TypeError ''this.client[command] is not a function'')} \<and>
   entries (snd (RedisService_get j k s)) = entries s \<and>
   RedisService_set j k v ttl redis_up =
     (Inl (TypeError ''this.client[command] is not a function''),
      redis_up\<lparr>breaker := Open, fires := 1, failures := 1\<rparr>) \<and>
   RedisService_get j k redis_up =
     (Inl (TypeError ''this.client[command] is not a function''),
      redis_up\<lparr>breaker := Open, fires := 1, failures := 1\<rparr>) \<and>
   RedisService_get j k (snd (RedisService_set j k v ttl redis_up)) =
     (Inl (Error ''Breaker is open''), redis_up\<lparr>breaker := Open, fires := 2, failures := 1\<rparr>)"
  by (simp add: RedisService_set_def RedisService_get_def fire_AsyncFn ensureConnection_def
      client_ping_def unreachable_def redis_up_def record_failure_def Let_def)

lemma RedisService_del_rejects:
  "fst (RedisService_del ks s) \<in>
     {Inl MaxRetriesPerRequestError, Inl (Error ''Breaker is open''),
      Inl (TypeError ''this.client[command] is not a function'')} \<and>
   entries (snd (RedisService_del ks s)) = entries s"
  by (simp add: RedisService_del_def fire_AsyncFn ensureConnection_def
      client_ping_def unreachable_def)

text \<open>
  The async functions themselves are sound: were they run, as a call
  \<open>fire('set', key, text)\<close> by method name would run the command, a \<open>get\<close> after a
  \<open>set\<close> would find the text until it expires.
\<close>

lemma functions_round_trip:
  "reachable s \<Longrightarrow> sv \<noteq> [] \<Longrightarrow>
   fst (client_get k (snd (set_fn k sv None s))) = Inr (JStr sv)"
  "reachable s \<Longrightarrow> 0 < n \<Longrightarrow>
   fst (client_get k ((snd (set_fn k sv (Some n) s))\<lparr>clock := clock s + d\<rparr>)) =
     Inr (if d < n then JStr sv else JNull)"
  by (simp_all add: set_fn_def client_set_def client_get_def live_def)

subsection \<open>The mutation's transaction\<close>

text \<open>How each step extends the record of calls and which statement was sent last.\<close>

lemma exec_frame:
  "fail_at (snd (exec q ps s)) = fail_at s \<and> issued (snd (exec q ps s)) = issued s"
  by (cases q) (auto simp: insert_row_def Let_def split: option.splits sum.splits prod.splits)

lemma client_query_sent:
  assumes "client_query q ps w = (r, w')"
  shows "calls w' = calls w @ [Query q ps]"
    and "cache w' = cache w"
    and "fail_at (db w') = fail_at (db w)"
    and "issued (db w') = Suc (issued (db w))"
    and "fail_at (db w) (issued (db w)) = Some e \<Longrightarrow> r = Inl e"
proof -
  obtain r0 s0 where p: "pg_client_query q ps (db w) = (r0, s0)"
    by (cases "pg_client_query q ps (db w)")
  with assms have w': "r = r0" "w' = w\<lparr>db := s0, calls := calls w @ [Query q ps]\<rparr>"
    by (auto simp: client_query_def)
  from w' show "calls w' = calls w @ [Query q ps]" "cache w' = cache w" by simp_all
  have s0: "fail_at s0 = fail_at (db w) \<and> issued s0 = Suc (issued (db w))"
    using p exec_frame [of q ps "(db w)\<lparr>issued := issued (db w) + 1\<rparr>"]
    by (auto simp: pg_client_query_def Let_def split: option.splits)
  with w' show "fail_at (db w') = fail_at (db w)" "issued (db w') = Suc (issued (db w))"
    by simp_all
  show "fail_at (db w) (issued (db w)) = Some e \<Longrightarrow> r = Inl e"
    using p w' by (auto simp: pg_client_query_def Let_def)
qed

lemma insert_variants_sent:
  "insert_variants product vs w = (r, w') \<Longrightarrow>
     fail_at (db w') = fail_at (db w) \<and> cache w' = cache w \<and> issued (db w) \<le> issued (db w') \<and>
     (\<exists>qs. calls w' = calls w @ qs \<and> cache_calls qs = []) \<and>
     (issued (db w) < issued (db w') \<longrightarrow> fail_at (db w) (issued (db w') - 1) = Some e \<longrightarrow> r = Inl e)"
proof (induction vs arbitrary: w)
  case Nil
  then show ?case by auto
next
  case (Cons variant rest)
  show ?case
  proof (cases "js_prop product ''id''")
    case (Inl e1)
    with Cons.prems show ?thesis by auto
  next
    case pid: (Inr pid)
    show ?thesis
    proof (cases "js_props variant [''color'', ''size'', ''price'', ''stock'']")
      case (Inl e1)
      with pid Cons.prems show ?thesis by auto
    next
      case ps: (Inr ps)
      obtain r1 w1 where q: "client_query InsertVariant (pid # ps) w = (r1, w1)"
        by (cases "client_query InsertVariant (pid # ps) w")
      note s = client_query_sent [OF q]
      show ?thesis
      proof (cases r1)
        case (Inl e1)
        with pid ps q Cons.prems have "r = Inl e1" "w' = w1" by auto
        with s Inl show ?thesis by auto
      next
        case (Inr rows)
        with pid ps q Cons.prems have rest: "insert_variants product rest w1 = (r, w')" by auto
        from Cons.IH [OF rest] s(1-4)
        have a: "fail_at (db w') = fail_at (db w)" "cache w' = cache w"
          "issued (db w) \<le> issued (db w')" "Suc (issued (db w)) \<le> issued (db w')"
          "\<exists>qs. calls w' = calls w @ qs \<and> cache_calls qs = []"
          by auto
        have b: "fail_at (db w) (issued (db w') - 1) = Some e \<Longrightarrow> r = Inl e"
        proof (cases "issued (db w1) < issued (db w')")
          case True
          with Cons.IH [OF rest] s(3) show "fail_at (db w) (issued (db w') - 1) = Some e \<Longrightarrow> r = Inl e"
            by auto
        next
          case False
          with a(4) s(4) have "issued (db w') - 1 = issued (db w)" by simp
          moreover assume "fail_at (db w) (issued (db w') - 1) = Some e"
          ultimately have "r1 = Inl e" using s(5) by simp
          with Inr show "r = Inl e" by simp
        qed
        from a b show ?thesis by blast
      qed
    qed
  qed
qed


lemma client_query_ok:
  assumes "client_query q ps w = (Inr rows, w')"
  shows "fail_at (db w) (issued (db w)) = None"
proof (cases "fail_at (db w) (issued (db w))")
  case None
  then show ?thesis .
next
  case (Some e)
  with client_query_sent(5) [OF assms] show ?thesis by simp
qed

lemma redis_del_sent:
  assumes "redis_del cc ks w = (r, w')"
  shows "calls w' = calls w @ [CacheDel ks]" and "db w' = db w"
  using assms by (auto simp: redis_del_def split: prod.splits)

text \<open>
  The \<open>try\<close> block sends at least one statement. If the last statement it sent was
  rejected, the block ends with that error and has made no cache call. Otherwise either
  it made no cache call and failed, or its calls end with a \<open>COMMIT\<close> that was not
  rejected, followed by the one \<open>del\<close>.
\<close>

lemma createProduct_try_sent:
  assumes t: "createProduct_try cc input w = (r, w')"
  shows "fail_at (db w') = fail_at (db w) \<and> issued (db w) < issued (db w') \<and>
    (fail_at (db w) (issued (db w') - 1) = Some e \<longrightarrow>
       r = Inl e \<and> cache w' = cache w \<and> (\<exists>qs. calls w' = calls w @ qs \<and> cache_calls qs = [])) \<and>
    ((\<exists>qs. calls w' = calls w @ qs \<and> cache_calls qs = [] \<and> cache w' = cache w \<and> (\<forall>x. r \<noteq> Inr x)) \<or>
     (\<exists>pre. calls w' = calls w @ pre @ [Query Commit [], CacheDel [''products:*'']] \<and>
        cache_calls pre = [] \<and> fail_at (db w) (issued (db w') - 1) = None))"
proof -
  let ?params = "map (js_field input)
     [''name'', ''description'', ''price'', ''sku'', ''brand'', ''stock'', ''categoryId'']"
  obtain r1 w1 where b: "client_query Begin [] w = (r1, w1)"
    by (cases "client_query Begin [] w")
  note s1 = client_query_sent [OF b]
  show ?thesis
  proof (cases r1)
    case (Inl e1)
    with t b have "r = Inl e1" "w' = w1" by (auto simp: createProduct_try_def)
    with s1 Inl show ?thesis by auto
  next
    case r1: (Inr rows1)
    obtain r2 w2 where ip: "client_query InsertProduct ?params w1 = (r2, w2)"
      by (cases "client_query InsertProduct ?params w1")
    note s2 = client_query_sent [OF ip]
    show ?thesis
    proof (cases r2)
      case (Inl e2)
      with t b r1 ip have "r = Inl e2" "w' = w2" by (auto simp: createProduct_try_def)
      with s1 s2 Inl show ?thesis by auto
    next
      case r2: (Inr rows)
      let ?product = "case rows of [] \<Rightarrow> JUndefined | x # rest \<Rightarrow> JObj x"
      let ?loop = "case js_field input ''variants'' of
           JArr vs \<Rightarrow> if vs \<noteq> [] then insert_variants ?product vs w2 else (Inr (), w2)
         | _ \<Rightarrow> (Inr (), w2)"
      obtain r3 w3 where l: "?loop = (r3, w3)" by (cases ?loop)
      have "\<exists>vs. ?loop = insert_variants ?product vs w2"
      proof (cases "js_field input ''variants''")
        case (JArr vs)
        then show ?thesis
          by (cases "vs = []") (auto intro: exI [of _ "[]"])
      qed (auto intro: exI [of _ "[]"])
      then obtain vs where "insert_variants ?product vs w2 = (r3, w3)" using l by auto
      note s3 = insert_variants_sent [OF this, of e]
      have t3: "createProduct_try cc input w =
        (case (r3, w3) of
           (Inl e, w3) \<Rightarrow> (Inl e, w3)
         | (Inr u, w3) \<Rightarrow>
             (case client_query Commit [] w3 of
                (Inl e, w4) \<Rightarrow> (Inl e, w4)
              | (Inr c, w4) \<Rightarrow>
                  (case redis_del cc [''products:*''] w4 of
                     (Inl e, w5) \<Rightarrow> (Inl e, w5)
                   | (Inr d, w5) \<Rightarrow> (Inr ?product, w5))))"
        using b r1 ip r2
        by (simp add: createProduct_try_def Let_def l)
      have last2: "fail_at (db w) (issued (db w1)) = None"
        using client_query_ok [of InsertProduct ?params w1 rows w2] ip r2 s1(3) by simp
      show ?thesis
      proof (cases r3)
        case (Inl e3)
        with t t3 have rw: "r = Inl e3" "w' = w3" by auto
        have "fail_at (db w) (issued (db w3) - 1) = Some e \<Longrightarrow> e3 = e"
        proof (cases "issued (db w2) < issued (db w3)")
          case True
          assume "fail_at (db w) (issued (db w3) - 1) = Some e"
          with True s3 s2(3) s1(3) Inl show "e3 = e" by auto
        next
          case False
          with s3 s2(4) have "issued (db w3) - 1 = issued (db w1)" by auto
          moreover assume "fail_at (db w) (issued (db w3) - 1) = Some e"
          ultimately show "e3 = e" using last2 by simp
        qed
        with rw s1 s2 s3 show ?thesis by auto
      next
        case r3: (Inr u)
        obtain r4 w4 where c: "client_query Commit [] w3 = (r4, w4)"
          by (cases "client_query Commit [] w3")
        note s4 = client_query_sent [OF c]
        show ?thesis
        proof (cases r4)
          case (Inl e4)
          with t t3 r3 c have rw: "r = Inl e4" "w' = w4" by auto
          with s1 s2 s3 s4 Inl show ?thesis by auto
        next
          case r4: (Inr rows4)
          obtain r5 w5 where d: "redis_del cc [''products:*''] w4 = (r5, w5)"
            by (cases "redis_del cc [''products:*''] w4")
          note s5 = redis_del_sent [OF d]
          from t t3 r3 c r4 d have w': "w' = w5" by (auto split: sum.splits)
          have ok: "fail_at (db w) (issued (db w3)) = None"
            using client_query_ok [of Commit "[]" w3 rows4 w4] c r4 s3 s2(3) s1(3) by simp
          from s3 obtain qs where qs: "calls w3 = calls w2 @ qs" "cache_calls qs = []" by auto
          have "calls w' = calls w @ ([Query Begin [], Query InsertProduct ?params] @ qs) @
              [Query Commit [], CacheDel [''products:*'']]"
            using w' s5 s4 qs s2 s1 by simp
          moreover have "cache_calls ([Query Begin [], Query InsertProduct ?params] @ qs) = []"
            using qs by simp
          ultimately have shape: "\<exists>pre. calls w' = calls w @ pre @ [Query Commit [], CacheDel [''products:*'']] \<and>
              cache_calls pre = []" by blast
          from w' s5 s4 s3 s2 s1 ok shape show ?thesis by auto
        qed
      qed
    qed
  qed
qed


lemma pool_connect_sent:
  "calls (snd (pool_connect w)) = calls w @ [Connect]"
  "db (snd (pool_connect w)) = db w"
  "cache (snd (pool_connect w)) = cache w"
  by (simp_all add: pool_connect_def split: option.splits)

lemma pool_connect_ok:
  "connect_fails (db w) = None \<Longrightarrow> pool_connect w = (Inr (), w\<lparr>calls := calls w @ [Connect]\<rparr>)"
  by (simp add: pool_connect_def)

lemma rollback_error:
  assumes "client_query Rollback [] w = (r, w')"
  shows "r = (case fail_at (db w) (issued (db w)) of None \<Rightarrow> Inr [] | Some e \<Rightarrow> Inl e)"
  using assms
  by (auto simp: client_query_def pg_client_query_def Let_def split: option.splits prod.splits)

lemma createProduct_connected:
  "validate input = None \<Longrightarrow> connect_fails (db w) = None \<Longrightarrow>
   createProduct cc validate input w =
     (case createProduct_try cc input (snd (pool_connect w)) of
        (Inr product, w2) \<Rightarrow> (Inr product, client_release w2)
      | (Inl e, w2) \<Rightarrow>
          (case client_query Rollback [] w2 of
             (Inl e', w3) \<Rightarrow> (Inl e', client_release w3)
           | (Inr r, w3) \<Rightarrow> (Inl e, client_release w3)))"
  by (simp add: createProduct_def pool_connect_def)

lemma createProduct_after_try:
  assumes "validate input = None" and "connect_fails (db w) = None"
    and t: "createProduct_try cc input (snd (pool_connect w)) = (Inl e, w2)"
    and rb: "client_query Rollback [] w2 = (r3, w3)"
  shows "createProduct cc validate input w =
    (Inl (case fail_at (db w2) (issued (db w2)) of None \<Rightarrow> e | Some e' \<Rightarrow> e'), client_release w3)"
  using rollback_error [OF rb] rb
  by (simp add: createProduct_connected [of validate input w cc] assms(1,2) t split: option.splits)


text \<open>
  Every statement a block sent before its last one was accepted: a rejected statement
  ends the loop and the \<open>try\<close> block. So if some statement the \<open>try\<close> block sent was
  rejected, it is the last one the block sent.
\<close>

lemma insert_variants_accepted:
  "insert_variants product vs w = (r, w') \<Longrightarrow> issued (db w) \<le> k \<Longrightarrow>
   Suc k < issued (db w') \<or> (k < issued (db w') \<and> r = Inr ()) \<Longrightarrow>
   fail_at (db w) k = None"
proof (induction vs arbitrary: w)
  case Nil
  then show ?case by auto
next
  case (Cons variant rest)
  show ?case
  proof (cases "js_prop product ''id''")
    case (Inl e1)
    with Cons.prems show ?thesis by auto
  next
    case pid: (Inr pid)
    show ?thesis
    proof (cases "js_props variant [''color'', ''size'', ''price'', ''stock'']")
      case (Inl e1)
      with pid Cons.prems show ?thesis by auto
    next
      case ps: (Inr ps)
      obtain r1 w1 where q: "client_query InsertVariant (pid # ps) w = (r1, w1)"
        by (cases "client_query InsertVariant (pid # ps) w")
      note s = client_query_sent [OF q]
      show ?thesis
      proof (cases r1)
        case (Inl e1)
        with pid ps q Cons.prems(1) have "r = Inl e1" "w' = w1" by auto
        with s(4) Cons.prems(2,3) show ?thesis by auto
      next
        case (Inr rows)
        with pid ps q Cons.prems(1) have rest: "insert_variants product rest w1 = (r, w')" by auto
        show ?thesis
        proof (cases "k = issued (db w)")
          case True
          with client_query_ok [of InsertVariant "pid # ps" w rows w1] q Inr show ?thesis by simp
        next
          case False
          with Cons.prems(2) s(4) have "issued (db w1) \<le> k" by simp
          from Cons.IH [OF rest this Cons.prems(3)] s(3) show ?thesis by simp
        qed
      qed
    qed
  qed
qed

lemma createProduct_try_accepted:
  assumes t: "createProduct_try cc input w = (r, w')"
    and k: "issued (db w) \<le> k" "Suc k < issued (db w')"
  shows "fail_at (db w) k = None"
proof -
  let ?params = "map (js_field input)
     [''name'', ''description'', ''price'', ''sku'', ''brand'', ''stock'', ''categoryId'']"
  obtain r1 w1 where b: "client_query Begin [] w = (r1, w1)"
    by (cases "client_query Begin [] w")
  note s1 = client_query_sent [OF b]
  show ?thesis
  proof (cases r1)
    case (Inl e1)
    with t b have "w' = w1" by (auto simp: createProduct_try_def)
    with s1(4) k show ?thesis by simp
  next
    case r1: (Inr rows1)
    have a1: "fail_at (db w) (issued (db w)) = None"
      using client_query_ok [of Begin "[]" w rows1 w1] b r1 by simp
    obtain r2 w2 where ip: "client_query InsertProduct ?params w1 = (r2, w2)"
      by (cases "client_query InsertProduct ?params w1")
    note s2 = client_query_sent [OF ip]
    show ?thesis
    proof (cases r2)
      case (Inl e2)
      with t b r1 ip have "w' = w2" by (auto simp: createProduct_try_def)
      with s1(4) s2(4) k a1 show ?thesis by (cases "k = issued (db w)") auto
    next
      case r2: (Inr rows)
      have a2: "fail_at (db w) (Suc (issued (db w))) = None"
        using client_query_ok [of InsertProduct ?params w1 rows w2] ip r2 s1(3,4) by simp
      let ?product = "case rows of [] \<Rightarrow> JUndefined | x # rest \<Rightarrow> JObj x"
      let ?loop = "case js_field input ''variants'' of
           JArr vs \<Rightarrow> if vs \<noteq> [] then insert_variants ?product vs w2 else (Inr (), w2)
         | _ \<Rightarrow> (Inr (), w2)"
      obtain r3 w3 where l: "?loop = (r3, w3)" by (cases ?loop)
      have "\<exists>vs. ?loop = insert_variants ?product vs w2"
      proof (cases "js_field input ''variants''")
        case (JArr vs)
        then show ?thesis
          by (cases "vs = []") (auto intro: exI [of _ "[]"])
      qed (auto intro: exI [of _ "[]"])
      then obtain vs where iv: "insert_variants ?product vs w2 = (r3, w3)" using l by auto
      note s3 = insert_variants_sent [OF iv, of undefined]
      have f2: "fail_at (db w2) = fail_at (db w)" "issued (db w2) = Suc (Suc (issued (db w)))"
        using s1(3,4) s2(3,4) by simp_all
      have t3: "createProduct_try cc input w =
        (case (r3, w3) of
           (Inl e, w3) \<Rightarrow> (Inl e, w3)
         | (Inr u, w3) \<Rightarrow>
             (case client_query Commit [] w3 of
                (Inl e, w4) \<Rightarrow> (Inl e, w4)
              | (Inr c, w4) \<Rightarrow>
                  (case redis_del cc [''products:*''] w4 of
                     (Inl e, w5) \<Rightarrow> (Inl e, w5)
                   | (Inr d, w5) \<Rightarrow> (Inr ?product, w5))))"
        using b r1 ip r2
        by (simp add: createProduct_try_def Let_def l)
      have early: "k < issued (db w2) \<Longrightarrow> fail_at (db w) k = None"
        using k(1) a1 a2 f2(2) by (cases "k = issued (db w)") (auto simp: less_Suc_eq)
      show ?thesis
      proof (cases r3)
        case (Inl e3)
        with t t3 have "w' = w3" by auto
        with k(2) have k3: "Suc k < issued (db w3)" by simp
        show ?thesis
        proof (cases "k < issued (db w2)")
          case True
          then show ?thesis by (rule early)
        next
          case False
          then have "issued (db w2) \<le> k" by simp
          from insert_variants_accepted [OF iv this] k3 f2(1) show ?thesis by simp
        qed
      next
        case r3: (Inr u)
        then have u: "r3 = Inr ()" by simp
        have loop_ok: "issued (db w2) \<le> k \<Longrightarrow> k < issued (db w3) \<Longrightarrow> fail_at (db w) k = None"
          using insert_variants_accepted [OF iv, of k] u f2(1) by simp
        obtain r4 w4 where c: "client_query Commit [] w3 = (r4, w4)"
          by (cases "client_query Commit [] w3")
        note s4 = client_query_sent [OF c]
        have f3: "fail_at (db w3) = fail_at (db w)" using s3 f2(1) by simp
        have upto3: "k < issued (db w3) \<Longrightarrow> fail_at (db w) k = None"
          using early loop_ok by (cases "k < issued (db w2)") auto
        show ?thesis
        proof (cases r4)
          case (Inl e4)
          with t t3 r3 c have "w' = w4" by auto
          with k(2) s4(4) have "k < issued (db w3)" by simp
          then show ?thesis by (rule upto3)
        next
          case r4: (Inr rows4)
          have a4: "fail_at (db w) (issued (db w3)) = None"
            using client_query_ok [of Commit "[]" w3 rows4 w4] c r4 f3 by simp
          obtain r5 w5 where d: "redis_del cc [''products:*''] w4 = (r5, w5)"
            by (cases "redis_del cc [''products:*''] w4")
          from t t3 r3 c r4 d have "w' = w5" by (auto split: sum.splits)
          with redis_del_sent(2) [OF d] s4(4) k(2) have "k \<le> issued (db w3)" by simp
          with a4 upto3 show ?thesis by (cases "k = issued (db w3)") auto
        qed
      qed
    qed
  qed
qed

lemma store_query_threw_last:
  assumes "store_query_threw cc input w e"
  shows "issued (db w) < issued (db (try_end cc input w)) \<and>
         fail_at (db w) (issued (db (try_end cc input w)) - 1) = Some e"
proof -
  let ?w1 = "snd (pool_connect w)"
  obtain r2 w2 where t: "createProduct_try cc input ?w1 = (r2, w2)"
    by (cases "createProduct_try cc input ?w1")
  then have w2: "try_end cc input w = w2" by (simp add: try_end_def)
  from assms obtain k where k: "issued (db w) \<le> k" "k < issued (db w2)" "fail_at (db w) k = Some e"
    by (auto simp: store_query_threw_def w2 list_ex_iff)
  have "\<not> Suc k < issued (db w2)"
    using createProduct_try_accepted [OF t, of k] k by (auto simp: pool_connect_sent)
  with k(2) have "issued (db w2) - 1 = k" by simp
  with k show ?thesis by (auto simp: w2)
qed

text \<open>
  C2, as amended. When a store query inside the transaction throws (some statement the
  \<open>try\<close> block sent was rejected with \<open>e\<close>), that statement is the last one the block
  sent, \<open>createProduct\<close> makes no cache call and leaves the cache as it was, its calls end
  with \<open>ROLLBACK\<close> and the release of the connection, and the caller receives \<open>e\<close> if
  \<open>ROLLBACK\<close> is not rejected and the error of \<open>ROLLBACK\<close> if it is. And whenever
  \<open>createProduct\<close> calls \<open>del\<close>, it is \<open>del('products:*')\<close> directly after a \<open>COMMIT\<close>
  that was not rejected.
\<close>

theorem failed_transaction_rolls_back:
  "(validate input = None \<and> connect_fails (db w) = None \<and> store_query_threw cc input w e \<longrightarrow>
      fail_at (db w) (issued (db (try_end cc input w)) - 1) = Some e \<and>
      fst (createProduct cc validate input w) =
        Inl (case fail_at (db w) (issued (db (try_end cc input w))) of
               None \<Rightarrow> e
             | Some e' \<Rightarrow> e') \<and>
      cache (snd (createProduct cc validate input w)) = cache w \<and>
      cache_calls (new_calls w (snd (createProduct cc validate input w))) = [] \<and>
      (\<exists>qs. new_calls w (snd (createProduct cc validate input w)) =
              Connect # qs @ [Query Rollback [], Release])) \<and>
   (CacheDel ks \<in> set (new_calls w (snd (createProduct cc validate input w))) \<longrightarrow>
      ks = [''products:*''] \<and>
      fail_at (db w) (issued (db (try_end cc input w)) - 1) = None \<and>
      (\<exists>pre post. new_calls w (snd (createProduct cc validate input w)) =
                    Connect # pre @ [Query Commit [], CacheDel ks] @ post \<and>
                  cache_calls pre = [] \<and> cache_calls post = []))"
proof (intro conjI impI)
  let ?w1 = "snd (pool_connect w)"
  obtain r2 w2 where t: "createProduct_try cc input ?w1 = (r2, w2)"
    by (cases "createProduct_try cc input ?w1")
  have w2: "try_end cc input w = w2" by (simp add: try_end_def t)
  note s = createProduct_try_sent [OF t]
  {
    assume h: "validate input = None \<and> connect_fails (db w) = None \<and> store_query_threw cc input w e"
    then have last: "fail_at (db ?w1) (issued (db w2) - 1) = Some e"
      using store_query_threw_last [of cc input w e] by (simp add: w2 pool_connect_sent)
    then show "fail_at (db w) (issued (db (try_end cc input w)) - 1) = Some e"
      by (simp add: w2 pool_connect_sent)
    from last s [of e] obtain qs where
      r2: "r2 = Inl e" and c2: "cache w2 = cache w" and
      qs: "calls w2 = calls ?w1 @ qs" "cache_calls qs = []"
      by (auto simp: pool_connect_sent)
    obtain r3 w3 where rb: "client_query Rollback [] w2 = (r3, w3)"
      by (cases "client_query Rollback [] w2")
    note s3 = client_query_sent [OF rb]
    have run: "createProduct cc validate input w =
      (Inl (case fail_at (db w2) (issued (db w2)) of None \<Rightarrow> e | Some e' \<Rightarrow> e'), client_release w3)"
      using createProduct_after_try [of validate input w cc e w2 r3 w3] rb h t r2 by simp
    have f: "fail_at (db w2) = fail_at (db w)" using s [of e] by (simp add: pool_connect_sent)
    show "fst (createProduct cc validate input w) =
        Inl (case fail_at (db w) (issued (db (try_end cc input w))) of None \<Rightarrow> e | Some e' \<Rightarrow> e')"
      by (simp add: run w2 f)
    show "cache (snd (createProduct cc validate input w)) = cache w"
      by (simp add: run client_release_def s3 c2)
    have calls: "calls (client_release w3) = calls w @ Connect # qs @ [Query Rollback [], Release]"
      by (simp add: client_release_def s3 qs pool_connect_sent)
    then have n: "new_calls w (snd (createProduct cc validate input w)) =
        Connect # qs @ [Query Rollback [], Release]"
      by (simp add: run new_calls_append)
    show "cache_calls (new_calls w (snd (createProduct cc validate input w))) = []"
      by (simp add: n qs)
    show "\<exists>qs. new_calls w (snd (createProduct cc validate input w)) =
              Connect # qs @ [Query Rollback [], Release]"
      using n by blast
  }
  assume del: "CacheDel ks \<in> set (new_calls w (snd (createProduct cc validate input w)))"
  have v: "validate input = None"
  proof (rule ccontr)
    assume "validate input \<noteq> None"
    then have "snd (createProduct cc validate input w) = w"
      by (auto simp: createProduct_def)
    with del show False by (simp add: new_calls_def)
  qed
  have c: "connect_fails (db w) = None"
  proof (rule ccontr)
    assume "connect_fails (db w) \<noteq> None"
    then have "snd (createProduct cc validate input w) = ?w1"
      using v by (auto simp: createProduct_def pool_connect_def)
    with del show False by (simp add: new_calls_def pool_connect_sent)
  qed
  obtain tail where tail: "calls (snd (createProduct cc validate input w)) = calls w2 @ tail"
    "cache_calls tail = []"
  proof (cases r2)
    case (Inr product)
    with t have "snd (createProduct cc validate input w) = client_release w2"
      by (simp add: createProduct_connected [of validate input w cc] v c)
    then have "calls (snd (createProduct cc validate input w)) = calls w2 @ [Release]"
      by (simp add: client_release_def)
    with that show ?thesis by simp
  next
    case (Inl e1)
    obtain r3 w3 where rb: "client_query Rollback [] w2 = (r3, w3)"
      by (cases "client_query Rollback [] w2")
    from createProduct_after_try [of validate input w cc e1 w2 r3 w3] v c rb t Inl
    have "snd (createProduct cc validate input w) = client_release w3" by simp
    then have "calls (snd (createProduct cc validate input w)) = calls w2 @ [Query Rollback [], Release]"
      by (simp add: client_release_def client_query_sent [OF rb])
    with that show ?thesis by simp
  qed
  from s [of e] consider
    (none) qs where "calls w2 = calls ?w1 @ qs" "cache_calls qs = []" |
    (some) pre where "calls w2 = calls ?w1 @ pre @ [Query Commit [], CacheDel [''products:*'']]"
      "cache_calls pre = []" "fail_at (db ?w1) (issued (db w2) - 1) = None"
    by blast
  then have "ks = [''products:*''] \<and>
      fail_at (db w) (issued (db (try_end cc input w)) - 1) = None \<and>
      (\<exists>pre post. new_calls w (snd (createProduct cc validate input w)) =
                    Connect # pre @ [Query Commit [], CacheDel ks] @ post \<and>
                  cache_calls pre = [] \<and> cache_calls post = [])"
  proof cases
    case none
    with tail have n: "new_calls w (snd (createProduct cc validate input w)) = Connect # qs @ tail"
      by (simp add: new_calls_append pool_connect_sent)
    note no_del = no_cache_calls
    from del n no_del [of qs ks] no_del [of tail ks] none tail show ?thesis by auto
  next
    case some
    with tail have n: "new_calls w (snd (createProduct cc validate input w)) =
        Connect # pre @ [Query Commit [], CacheDel [''products:*'']] @ tail"
      by (simp add: new_calls_append pool_connect_sent)
    note no_del = no_cache_calls
    from del n no_del [of pre ks] no_del [of tail ks] some tail have ks: "ks = [''products:*'']"
      by auto
    from some(3) have "fail_at (db w) (issued (db (try_end cc input w)) - 1) = None"
      by (simp add: w2 pool_connect_sent)
    with ks n some(2) tail(2) show ?thesis by blast
  qed
  then show "ks = [''products:*'']"
    and "fail_at (db w) (issued (db (try_end cc input w)) - 1) = None"
    and "\<exists>pre post. new_calls w (snd (createProduct cc validate input w)) =
                    Connect # pre @ [Query Commit [], CacheDel ks] @ post \<and>
                  cache_calls pre = [] \<and> cache_calls post = []"
    by blast+
qed

lemmas mutation_defs = createProduct_def createProduct_try_def pool_connect_def client_query_def
  pg_client_query_def insert_row_def product_row_def variant_row_def redis_del_def
  client_release_def try_end_def store_query_threw_def

lemmas mutation_scenario_defs = faulty_def insert_fails_def insert_and_rollback_fail_def
  second_variant_fails_def mockInput_def mockInputWithVariants_def mockVariants_def
  newProduct_def stale_world_def

lemma show_nat_small [simp]: "show_nat 2 = ''2''" "show_nat 3 = ''3''" "show_nat 4 = ''4''"
  by (simp_all add: show_nat.simps digit_def)

text \<open>
  The product's \<open>INSERT\<close> is rejected: \<open>ROLLBACK\<close>, no cache call, the error reaches the
  caller, nothing is committed. And the calls of a successful run, with its \<open>del\<close> after
  \<open>COMMIT\<close>.
\<close>

theorem failed_transaction_rolls_back_witness:
  "store_query_threw mem_client mockInput (new_resolver Map.empty (faulty insert_fails))
     (StoreError ''duplicate key value'') \<and>
   fst (createProduct mem_client (\<lambda>i. None) mockInput (new_resolver Map.empty (faulty insert_fails))) =
     Inl (StoreError ''duplicate key value'') \<and>
   calls (snd (createProduct mem_client (\<lambda>i. None) mockInput
                 (new_resolver Map.empty (faulty insert_fails)))) =
     [Connect, Query Begin [],
      Query InsertProduct
        [JStr ''Neues Produkt'', JStr ''Detaillierte Beschreibung'', JNum 99, JUndefined,
         JUndefined, JNum 50, JStr ''fd5f0dfe-a9ed-4234-b0a0-afc3c187c10b''],
      Query Rollback [], Release] \<and>
   committed (db (snd (createProduct mem_client (\<lambda>i. None) mockInput
                         (new_resolver Map.empty (faulty insert_fails))))) = ([], []) \<and>
   new_calls stale_world (snd (createProduct mem_client (\<lambda>i. None) mockInput stale_world)) =
     Connect #
     [Query Begin [],
      Query InsertProduct
        [JStr ''Neues Produkt'', JStr ''Detaillierte Beschreibung'', JNum 99, JUndefined,
         JUndefined, JNum 50, JStr ''fd5f0dfe-a9ed-4234-b0a0-afc3c187c10b'']] @
     [Query Commit [], CacheDel [''products:*'']] @ [Release]"
proof -
  let ?w = "new_resolver (Map.empty :: string \<rightharpoonup> jsval) (faulty insert_fails)"
  have threw: "store_query_threw mem_client mockInput ?w (StoreError ''duplicate key value'')"
    by (simp add: mutation_defs mutation_scenario_defs mem_client_def new_resolver_def store_def
        js_field_def Let_def)
  have rb: "fail_at (db ?w) (issued (db (try_end mem_client mockInput ?w))) = None"
    by (simp add: mutation_defs mutation_scenario_defs mem_client_def new_resolver_def store_def
        js_field_def Let_def)
  have pre: "(\<lambda>i. None) mockInput = (None :: error option)" "connect_fails (db ?w) = None"
    by (simp_all add: new_resolver_def faulty_def store_def)
  have calls: "calls (snd (createProduct mem_client (\<lambda>i. None) mockInput ?w)) =
     [Connect, Query Begin [],
      Query InsertProduct
        [JStr ''Neues Produkt'', JStr ''Detaillierte Beschreibung'', JNum 99, JUndefined,
         JUndefined, JNum 50, JStr ''fd5f0dfe-a9ed-4234-b0a0-afc3c187c10b''],
      Query Rollback [], Release]"
    "committed (db (snd (createProduct mem_client (\<lambda>i. None) mockInput ?w))) = ([], [])"
    by (simp_all add: mutation_defs mutation_scenario_defs mem_client_def new_resolver_def
        store_def js_field_def Let_def)
  have ok: "new_calls stale_world (snd (createProduct mem_client (\<lambda>i. None) mockInput stale_world)) =
     [Connect, Query Begin [],
      Query InsertProduct
        [JStr ''Neues Produkt'', JStr ''Detaillierte Beschreibung'', JNum 99, JUndefined,
         JUndefined, JNum 50, JStr ''fd5f0dfe-a9ed-4234-b0a0-afc3c187c10b''],
      Query Commit [], CacheDel [''products:*''], Release]"
    by (simp add: mutation_defs mutation_scenario_defs mem_client_def new_resolver_def store_def
        js_field_def new_calls_def Let_def)
  from failed_transaction_rolls_back
    [of "\<lambda>i. None" mockInput ?w mem_client "StoreError ''duplicate key value''"]
    threw rb pre calls ok
  show ?thesis by simp
qed

text \<open>
  C2 as stated fails: the product's \<open>INSERT\<close> is rejected with one error and the
  \<open>ROLLBACK\<close> that follows with another (a lost connection rejects both); the caller
  receives the second, not the first.
\<close>

theorem failed_transaction_counterexample:
  "store_query_threw mem_client mockInput (new_resolver Map.empty (faulty insert_and_rollback_fail))
     (StoreError ''duplicate key value'') \<and>
   fst (createProduct mem_client (\<lambda>i. None) mockInput
          (new_resolver Map.empty (faulty insert_and_rollback_fail))) =
     Inl (StoreError ''Connection terminated unexpectedly'') \<and>
   calls (snd (createProduct mem_client (\<lambda>i. None) mockInput
                 (new_resolver Map.empty (faulty insert_and_rollback_fail)))) =
     [Connect, Query Begin [],
      Query InsertProduct
        [JStr ''Neues Produkt'', JStr ''Detaillierte Beschreibung'', JNum 99, JUndefined,
         JUndefined, JNum 50, JStr ''fd5f0dfe-a9ed-4234-b0a0-afc3c187c10b''],
      Query Rollback [], Release]"
  by (simp add: mutation_defs mutation_scenario_defs mem_client_def new_resolver_def store_def
      js_field_def Let_def)















subsection \<open>The mutation's invalidation\<close>

lemma show_nat_digit:
  "show_nat n \<noteq> [] \<and> hd (show_nat n) \<in> set ''0123456789''"
proof (induction n rule: show_nat.induct)
  case (1 n)
  have d: "digit n \<in> set ''0123456789''"
    unfolding digit_def by (rule nth_mem) simp
  show ?case
  proof (cases "n < 10")
    case True
    with d show ?thesis by (simp add: show_nat.simps [of n])
  next
    case False
    with 1 show ?thesis by (simp add: show_nat.simps [of n])
  qed
qed

lemma show_int_head: "show_int i \<noteq> [] \<and> hd (show_int i) \<noteq> CHR ''*''"
  using show_nat_digit [of "nat i"] by (auto simp: show_int_def)

lemma list_key_is_not_the_wildcard: "products_cacheKey limit offset \<noteq> ''products:*''"
proof
  assume "products_cacheKey limit offset = ''products:*''"
  then have "show_int limit @ '':'' @ show_int offset = ''*''"
    by (simp add: products_cacheKey_def)
  then have "hd (show_int limit @ '':'' @ show_int offset) = CHR ''*''" by simp
  with show_int_head [of limit] show False by simp
qed


text \<open>
  C1 fails on the code. \<open>createProduct\<close> succeeds on a cache that holds the list under
  \<open>products:10:0\<close>: the product is committed, the one cache call is
  \<open>del('products:*')\<close>, and the entry under \<open>products:10:0\<close> is still there, so the next
  list read is a hit that lacks the new product. No key of the list template is the text
  \<open>products:*\<close>. Over \<open>RedisService\<close> itself the entry stays as well: the product is
  committed, the \<open>del\<close> is rejected by the breaker, a \<open>ROLLBACK\<close> follows the \<open>COMMIT\<close>
  and the caller receives the breaker's error.
\<close>

theorem createProduct_keeps_list_keys:
  "fst (createProduct mem_client (\<lambda>i. None) mockInput stale_world) = Inr (JObj newProduct) \<and>
   committed (db (snd (createProduct mem_client (\<lambda>i. None) mockInput stale_world))) =
     ([newProduct], []) \<and>
   calls (snd (createProduct mem_client (\<lambda>i. None) mockInput stale_world)) =
     [Connect, Query Begin [],
      Query InsertProduct
        [JStr ''Neues Produkt'', JStr ''Detaillierte Beschreibung'', JNum 99, JUndefined,
         JUndefined, JNum 50, JStr ''fd5f0dfe-a9ed-4234-b0a0-afc3c187c10b''],
      Query Commit [], CacheDel [''products:*''], Release] \<and>
   cache (snd (createProduct mem_client (\<lambda>i. None) mockInput stale_world)) (products_cacheKey 10 0) =
     Some (JArr [JObj mockProduct]) \<and>
   fst (products mem_client 10 0 (snd (createProduct mem_client (\<lambda>i. None) mockInput stale_world))) =
     Inr (JArr [JObj mockProduct]) \<and>
   products_cacheKey limit offset \<noteq> ''products:*'' \<and>
   fst (createProduct (redisService j) (\<lambda>i. None) mockInput stale_redis) =
     Inl (TypeError ''this.client[command] is not a function'') \<and>
   committed (db (snd (createProduct (redisService j) (\<lambda>i. None) mockInput stale_redis))) =
     ([newProduct], []) \<and>
   statements (calls (snd (createProduct (redisService j) (\<lambda>i. None) mockInput stale_redis))) =
     [Begin, InsertProduct, Commit, Rollback] \<and>
   live (cache (snd (createProduct (redisService j) (\<lambda>i. None) mockInput stale_redis)))
     (products_cacheKey 10 0) = Some ''[]''"
proof -
  have shipped:
    "fst (createProduct (redisService j) (\<lambda>i. None) mockInput stale_redis) =
       Inl (TypeError ''this.client[command] is not a function'') \<and>
     committed (db (snd (createProduct (redisService j) (\<lambda>i. None) mockInput stale_redis))) =
       ([newProduct], []) \<and>
     statements (calls (snd (createProduct (redisService j) (\<lambda>i. None) mockInput stale_redis))) =
       [Begin, InsertProduct, Commit, Rollback] \<and>
     live (cache (snd (createProduct (redisService j) (\<lambda>i. None) mockInput stale_redis)))
       (products_cacheKey 10 0) = Some ''[]''"
    by (simp add: mutation_defs mutation_scenario_defs new_resolver_def store_def
        js_field_def Let_def stale_redis_def redisService_def RedisService_del_def fire_AsyncFn
        ensureConnection_def redis_up_def live_def key_defs record_failure_def)
  have run: "createProduct mem_client (\<lambda>i. None) mockInput stale_world =
     (Inr (JObj newProduct),
      stale_world
        \<lparr>db := (db stale_world)\<lparr>issued := 3, committed := ([newProduct], []), next_id := 3\<rparr>,
         calls := [Connect, Query Begin [],
            Query InsertProduct
              [JStr ''Neues Produkt'', JStr ''Detaillierte Beschreibung'', JNum 99, JUndefined,
               JUndefined, JNum 50, JStr ''fd5f0dfe-a9ed-4234-b0a0-afc3c187c10b''],
            Query Commit [], CacheDel [''products:*''], Release]\<rparr>)"
    by (simp add: createProduct_def createProduct_try_def pool_connect_def client_query_def
        pg_client_query_def insert_row_def product_row_def redis_del_def client_release_def
        stale_world_def new_resolver_def store_def mem_client_def mockInput_def newProduct_def
        js_field_def show_nat.simps digit_def Let_def key_defs)
  show ?thesis
    unfolding run
    by (simp add: list_key_is_not_the_wildcard shipped)
      (simp add: products_def redis_get_def mem_client_def stale_world_def new_resolver_def
        key_defs Let_def)
qed

end
